theory Spec2Isabelle
  imports Main "HOL-Library.Char_ord" "HOL-Library.List_Lexorder"
begin

section \<open>JavaScript strings and values\<close>

text \<open>
  Strings are lists of characters (bytes). The string methods the program calls are
  written out: \<^verbatim>\<open>startsWith\<close>, \<^verbatim>\<open>includes\<close>, \<^verbatim>\<open>trim\<close> (of ASCII white space),
  \<^verbatim>\<open>split\<close> on one character, \<^verbatim>\<open>Array.join\<close> and the decimal rendering of an integer
  inside a template literal.
\<close>

definition startsWith :: "string \<Rightarrow> string \<Rightarrow> bool" where
  "startsWith s p = (take (length p) s = p)"

fun includes_str :: "string \<Rightarrow> string \<Rightarrow> bool" where
  "includes_str [] p = (p = [])"
| "includes_str (c # cs) p = (startsWith (c # cs) p \<or> includes_str cs p)"

definition is_space :: "char \<Rightarrow> bool" where
  "is_space c = (c \<in> set [CHR '' '', CHR 0x09, CHR 0x0A, CHR 0x0B, CHR 0x0C, CHR 0x0D])"

definition trim :: "string \<Rightarrow> string" where
  "trim s = rev (dropWhile is_space (rev (dropWhile is_space s)))"

fun split_on :: "char \<Rightarrow> string \<Rightarrow> string list" where
  "split_on sep [] = [[]]"
| "split_on sep (c # cs) =
     (case split_on sep cs of
        [] \<Rightarrow> [[c]]
      | x # xs \<Rightarrow> if c = sep then [] # x # xs else (c # x) # xs)"

fun join :: "string \<Rightarrow> string list \<Rightarrow> string" where
  "join sep [] = []"
| "join sep [x] = x"
| "join sep (x # y # ys) = x @ sep @ join sep (y # ys)"

definition digit_char :: "nat \<Rightarrow> char" where
  "digit_char d = ''0123456789'' ! d"

fun show_nat :: "nat \<Rightarrow> string" where
  "show_nat n = (if n < 10 then [digit_char n] else show_nat (n div 10) @ [digit_char (n mod 10)])"

declare show_nat.simps [simp del]

definition show_int :: "int \<Rightarrow> string" where
  "show_int i = (if i < 0 then CHR ''-'' # show_nat (nat (- i)) else show_nat (nat i))"

text \<open>
  A thrown JavaScript exception is a value: an \<^verbatim>\<open>Error\<close> with its message, or one of the
  built-in \<^verbatim>\<open>TypeError\<close> and \<^verbatim>\<open>SyntaxError\<close>.
\<close>

datatype error = Error (message: string) | TypeError | SyntaxError

text \<open>A decoded JSON document, as \<^verbatim>\<open>JSON.parse\<close> returns it.\<close>

datatype json =
    JNull
  | JBool bool
  | JNum int
  | JStr string
  | JArr "json list"
  | JObj "(string \<times> json) list"

text \<open>Truthiness of a string that may be \<^verbatim>\<open>null\<close> or \<^verbatim>\<open>undefined\<close>.\<close>

fun truthy_str :: "string option \<Rightarrow> bool" where
  "truthy_str None = False"
| "truthy_str (Some s) = (s \<noteq> [])"

text \<open>\<^verbatim>\<open>a || b\<close> on strings: the default replaces \<^verbatim>\<open>undefined\<close> and the empty string.\<close>

fun or_default :: "string option \<Rightarrow> string \<Rightarrow> string" where
  "or_default None d = d"
| "or_default (Some s) d = (if s = [] then d else s)"

section \<open>POSIX paths (Node's \<^verbatim>\<open>path.posix\<close>)\<close>

text \<open>
  \<^verbatim>\<open>normalize\<close> works on the segments between slashes: empty segments and \<^verbatim>\<open>.\<close> are
  dropped, \<^verbatim>\<open>..\<close> removes the segment before it, and is kept only in a relative path that
  has nothing left to remove. The stack \<open>res\<close> is kept reversed.
\<close>

fun normalizeString :: "bool \<Rightarrow> string list \<Rightarrow> string list \<Rightarrow> string list" where
  "normalizeString allowAboveRoot res [] = rev res"
| "normalizeString allowAboveRoot res (s # ss) =
     (if s = [] \<or> s = ''.'' then normalizeString allowAboveRoot res ss
      else if s = ''..'' then
        (case res of
           [] \<Rightarrow> normalizeString allowAboveRoot (if allowAboveRoot then [''..''] else []) ss
         | t # ts \<Rightarrow>
             if t = ''..''
             then normalizeString allowAboveRoot (if allowAboveRoot then ''..'' # res else res) ss
             else normalizeString allowAboveRoot ts ss)
      else normalizeString allowAboveRoot (s # res) ss)"

definition normalize_path :: "string \<Rightarrow> string" where
  "normalize_path path =
     (if path = [] then ''.''
      else
        let isAbsolute = (hd path = CHR ''/'');
            trailingSeparator = (last path = CHR ''/'');
            p = join ''/'' (normalizeString (\<not> isAbsolute) [] (split_on CHR ''/'' path))
        in if p = [] then (if isAbsolute then ''/'' else if trailingSeparator then ''./'' else ''.'')
           else (if isAbsolute then ''/'' else []) @ p @ (if trailingSeparator then ''/'' else []))"

definition path_join :: "string list \<Rightarrow> string" where
  "path_join parts =
     (let joined = join ''/'' (filter (\<lambda>p. p \<noteq> []) parts)
      in if joined = [] then ''.'' else normalize_path joined)"

definition basename :: "string \<Rightarrow> string" where
  "basename path =
     rev (takeWhile (\<lambda>c. c \<noteq> CHR ''/'') (dropWhile (\<lambda>c. c = CHR ''/'') (rev path)))"

definition extname :: "string \<Rightarrow> string" where
  "extname path =
     (let base = basename path
      in if CHR ''.'' \<notin> set base then []
         else
           let ext = CHR ''.'' # rev (takeWhile (\<lambda>c. c \<noteq> CHR ''.'') (rev base))
           in if length ext = length base \<or> base = ''..'' then [] else ext)"

section \<open>Settings and cluster paths (ConfigManager)\<close>

text \<open>
  The settings the program reads. \<^verbatim>\<open>get\<close> returns its default (\<^verbatim>\<open>null\<close> unless given)
  for a value that is unset or the empty string.
\<close>

record settings =
  clusterHost :: "string option"
  username :: "string option"
  sshPort :: "int option"

definition get_setting :: "string option \<Rightarrow> string option" where
  "get_setting v = (if truthy_str v then v else None)"

record cluster_info =
  host :: "string option"
  port :: int
  fullUsername :: string
  clusterUsername :: string
  scratchBase :: string
  scratchDir :: string
  jobsDir :: string
  venvsDir :: string

definition SCRATCH_BASE :: string where
  "SCRATCH_BASE = ''/scratch.hpc''"

text \<open>\<^verbatim>\<open>getClusterInfo\<close> calls \<^verbatim>\<open>includes\<close> on the user name, which throws when it is unset.\<close>

definition getClusterInfo :: "settings \<Rightarrow> error + cluster_info" where
  "getClusterInfo cfg =
     (case get_setting (username cfg) of
        None \<Rightarrow> Inl TypeError
      | Some u \<Rightarrow>
          let cu = (if includes_str u ''@'' then hd (split_on CHR ''@'' u) else u)
          in Inr \<lparr>host = get_setting (clusterHost cfg),
                  port = (case sshPort cfg of None \<Rightarrow> 22 | Some p \<Rightarrow> p),
                  fullUsername = u, clusterUsername = cu,
                  scratchBase = SCRATCH_BASE,
                  scratchDir = SCRATCH_BASE @ ''/'' @ cu,
                  jobsDir = SCRATCH_BASE @ ''/'' @ cu @ ''/hpc_jobs'',
                  venvsDir = SCRATCH_BASE @ ''/'' @ cu @ ''/python_venvs''\<rparr>)"

section \<open>Job identifiers (ClusterManager.generateJobId)\<close>

text \<open>
  A \<^verbatim>\<open>Date\<close> is read through its UTC calendar fields, the values \<^verbatim>\<open>toISOString\<close> prints;
  \<^verbatim>\<open>getMilliseconds\<close> gives the same milliseconds in every time zone.
\<close>

record date =
  year :: int
  month :: nat
  day :: nat
  hours :: nat
  minutes :: nat
  seconds :: nat
  milliseconds :: nat

text \<open>The last \<open>n\<close> decimal digits of a number, most significant first.\<close>

fun digits :: "nat \<Rightarrow> nat \<Rightarrow> string" where
  "digits 0 k = []"
| "digits (Suc n) k = digits n (k div 10) @ [digit_char (k mod 10)]"

text \<open>
  \<^verbatim>\<open>toISOString\<close>: \<^verbatim>\<open>YYYY-MM-DDTHH:mm:ss.sssZ\<close>, the year with four digits from 0 to 9999
  and with a sign and six digits outside that range.
\<close>

definition toISOString :: "date \<Rightarrow> string" where
  "toISOString d =
     (if 0 \<le> year d \<and> year d \<le> 9999 then digits 4 (nat (year d))
      else (if year d < 0 then ''-'' else ''+'') @ digits 6 (nat \<bar>year d\<bar>)) @
     ''-'' @ digits 2 (month d) @ ''-'' @ digits 2 (day d) @ ''T'' @
     digits 2 (hours d) @ '':'' @ digits 2 (minutes d) @ '':'' @ digits 2 (seconds d) @
     ''.'' @ digits 3 (milliseconds d) @ ''Z''"

definition padStart :: "nat \<Rightarrow> char \<Rightarrow> string \<Rightarrow> string" where
  "padStart n c s = replicate (n - length s) c @ s"

text \<open>
  \<^verbatim>\<open>s.replace(/\..+/, '')\<close>: the first dot that is followed by a character other than a
  line break is removed together with the rest of its line.
\<close>

fun remove_dot_rest :: "string \<Rightarrow> string" where
  "remove_dot_rest [] = []"
| "remove_dot_rest [c] = [c]"
| "remove_dot_rest (c # c' # cs) =
     (if c = CHR ''.'' \<and> c' \<notin> set [CHR 0x0A, CHR 0x0D]
      then dropWhile (\<lambda>x. x \<notin> set [CHR 0x0A, CHR 0x0D]) (c' # cs)
      else c # remove_dot_rest (c' # cs))"

definition generateJobId :: "date \<Rightarrow> string" where
  "generateJobId now =
     (let timestamp = map (\<lambda>c. if c = CHR '':'' then CHR ''-'' else c)
                        (remove_dot_rest (toISOString now));
          ms = padStart 3 (CHR ''0'') (show_nat (milliseconds now))
      in timestamp @ ''-'' @ ms)"

text \<open>
  The fields of a date the clock can show with a four-digit year, and the order of two
  such dates in time.
\<close>

definition valid_date :: "date \<Rightarrow> bool" where
  "valid_date d =
     (0 \<le> year d \<and> year d \<le> 9999 \<and> 1 \<le> month d \<and> month d \<le> 12 \<and> 1 \<le> day d \<and> day d \<le> 31
      \<and> hours d < 24 \<and> minutes d < 60 \<and> seconds d < 60 \<and> milliseconds d < 1000)"

definition earlier :: "date \<Rightarrow> date \<Rightarrow> bool" where
  "earlier a b =
     (year a < year b \<or> year a = year b \<and>
       (month a < month b \<or> month a = month b \<and>
         (day a < day b \<or> day a = day b \<and>
           (hours a < hours b \<or> hours a = hours b \<and>
             (minutes a < minutes b \<or> minutes a = minutes b \<and>
               (seconds a < seconds b \<or> seconds a = seconds b \<and>
                 milliseconds a < milliseconds b))))))"

section \<open>Job records and the local ledger (StorageManager)\<close>

text \<open>
  The job configuration collected by the scheduling dialog, the compiler dialogs and
  \<^verbatim>\<open>submitJob\<close>. A field that may be absent is an option.
\<close>

record job_config =
  cfg_name :: string
  cfg_partition :: string
  cfg_gpus :: int
  cfg_cpus :: int
  cfg_memory :: string
  cfg_time :: string
  cfg_pythonEnv :: "string option"
  cfg_optimizationLevel :: "string option"
  cfg_extraFlags :: "string option"
  cfg_includeFlags :: "string option"
  cfg_compileCommand :: "string option"
  cfg_executeCommand :: "string option"
  cfg_cmakeConfigureCommand :: "string option"
  cfg_cmakeBuildCommand :: "string option"
  cfg_id :: string
  cfg_fileName :: string
  cfg_submitted :: string
  cfg_inputFiles :: "string list"

text \<open>
  A ledger record, with the fields \<^verbatim>\<open>submitJob\<close> writes and the \<^verbatim>\<open>statusData\<close>
  snapshot a poll may attach. The status is a JSON value: the program itself writes
  strings, and a poll adopts whatever the remote metadata file holds.
\<close>

record job =
  jobId :: string
  slurmId :: "string option"
  name :: string
  fileName :: string
  filePath :: string
  inputFiles :: "string list option"
  remoteDir :: string
  submitted :: string
  status :: json
  config :: job_config
  statusData :: "json option"

text \<open>
  What is on disk at a path where the ledger may be: nothing, a file that cannot be read,
  text that is not JSON, or the array of records that \<^verbatim>\<open>saveJobs\<close> wrote. JSON of another
  shape (\<^verbatim>\<open>null\<close>, an object, an array holding something that is not a record) is not
  represented: the ledger is taken to be one that \<^verbatim>\<open>saveJobs\<close> wrote or a damaged file.
\<close>

datatype jobs_file = NoFile | Unreadable | NotJson | Ledger "job list"

text \<open>
  Everything outside the process that one call of the program sees: the answer of the
  remote side to a command or transfer (which may depend on all calls made before), the
  decoder \<^verbatim>\<open>JSON.parse\<close>, the editor's workspace folders and the answer of its folder
  dialog, the settings, the clock (its \<open>k\<close>-th reading) and the directory for temporary
  files. Writing and removing local files is taken to succeed; reading the ledger may fail.
\<close>

datatype io_call = Exec string | Upload string string

record env =
  respond :: "io_call list \<Rightarrow> io_call \<Rightarrow> error + string"
  JSON_parse :: "string \<Rightarrow> json option"
  workspaceFolders :: "string list"
  showOpenDialog :: "string list option"
  vscode_settings :: settings
  clock :: "nat \<Rightarrow> date"
  tmpdir :: string

text \<open>
  The state the program changes: the two fields of the StorageManager, the local disk,
  the log of remote calls issued so far and the number of clock readings taken.
\<close>

record world =
  jobsFile :: "string option"
  storageDir :: "string option"
  disk :: "string \<Rightarrow> jobs_file"
  trace :: "io_call list"
  ticks :: nat

text \<open>
  \<^verbatim>\<open>StorageManager.initialize\<close>: a no-op once the ledger path is set; otherwise the storage
  directory is the first workspace folder's \<^verbatim>\<open>.vscode/.hpc-connector\<close>, or the folder the
  user picks, and it throws when the user picks none. A missing ledger file is created
  holding the empty array.
\<close>

definition initialize :: "env \<Rightarrow> world \<Rightarrow> (error + string option) \<times> world" where
  "initialize e w =
     (if truthy_str (jobsFile w) then (Inr (storageDir w), w)
      else
        let dir =
          (if workspaceFolders e \<noteq> []
           then Inr (path_join [hd (workspaceFolders e), ''.vscode'', ''.hpc-connector''])
           else (case showOpenDialog e of
                   None \<Rightarrow> Inl (Error ''No storage location selected. Please open a workspace or select a folder.'')
                 | Some sel \<Rightarrow>
                     if sel = []
                     then Inl (Error ''No storage location selected. Please open a workspace or select a folder.'')
                     else Inr (path_join [hd sel, ''.hpc-connector''])))
        in case dir of
             Inl err \<Rightarrow> (Inl err, w)
           | Inr d \<Rightarrow>
               let f = path_join [d, ''jobs.json'']
               in (Inr (Some d),
                   w\<lparr>jobsFile := Some f, storageDir := Some d,
                     disk := (if disk w f = NoFile then (disk w)(f := Ledger []) else disk w)\<rparr>))"

text \<open>
  \<^verbatim>\<open>StorageManager.loadJobs\<close> and \<^verbatim>\<open>saveJobs\<close>: both throw before initialisation;
  \<^verbatim>\<open>loadJobs\<close> catches every failure of reading and decoding and returns the empty list;
  \<^verbatim>\<open>saveJobs\<close> replaces the file's content. The write of \<^verbatim>\<open>saveJobs\<close> is not caught in
  the source and is taken to succeed here: the ledger path is taken to be a regular file
  that can be written, as it is after \<^verbatim>\<open>initialize\<close> created it. A path that cannot be
  written (a directory, a file without permission) makes the source throw at the write.
\<close>

definition loadJobs :: "world \<Rightarrow> error + job list" where
  "loadJobs w =
     (if \<not> truthy_str (jobsFile w) then Inl (Error ''Storage not initialized'')
      else (case disk w (the (jobsFile w)) of
              Ledger js \<Rightarrow> Inr js
            | _ \<Rightarrow> Inr []))"

definition saveJobs :: "job list \<Rightarrow> world \<Rightarrow> error + world" where
  "saveJobs jobs w =
     (if \<not> truthy_str (jobsFile w) then Inl (Error ''Storage not initialized'')
      else Inr (w\<lparr>disk := (disk w)(the (jobsFile w) := Ledger jobs)\<rparr>))"

section \<open>Execution recipes and script generation (executors, ScriptBuilder)\<close>

text \<open>
  \<^verbatim>\<open>ExecutorFactory.createExecutor\<close> chooses the recipe by file name: the build-project
  marker first, then the extension; any other extension throws.
\<close>

datatype executor = PythonExecutor | CppExecutor | CudaExecutor | CMakeExecutor

definition createExecutor :: "string \<Rightarrow> error + executor" where
  "createExecutor fpath =
     (if basename fpath = ''CMakeLists.txt'' then Inr CMakeExecutor
      else if extname fpath = ''.py'' \<or> extname fpath = ''.ipynb'' then Inr PythonExecutor
      else if extname fpath = ''.c'' \<or> extname fpath = ''.cpp'' then Inr CppExecutor
      else if extname fpath = ''.cu'' then Inr CudaExecutor
      else Inl (Error (''Unsupported file type: '' @ extname fpath)))"

text \<open>\<^verbatim>\<open>validate\<close>: \<open>None\<close> when the configuration passes, the thrown error otherwise.\<close>

fun validate :: "executor \<Rightarrow> job_config \<Rightarrow> error option" where
  "validate PythonExecutor c =
     (if \<not> truthy_str (cfg_pythonEnv c) then Some (Error ''Python environment not specified'')
      else None)"
| "validate CppExecutor c =
     (if cfg_optimizationLevel c \<notin> set [Some ''-O0'', Some ''-O1'', Some ''-O2'', Some ''-O3'']
      then Some (Error (''Invalid optimization level: '' @
                   (case cfg_optimizationLevel c of None \<Rightarrow> ''undefined'' | Some l \<Rightarrow> l)))
      else None)"
| "validate CudaExecutor c =
     (if cfg_compileCommand c = Some [] then Some (Error ''Compilation command cannot be empty'')
      else if cfg_executeCommand c = Some [] then Some (Error ''Execution command cannot be empty'')
      else if cfg_gpus c \<le> 0 then Some (Error ''CUDA execution requires at least 1 GPU'')
      else None)"
| "validate CMakeExecutor c =
     (if cfg_cmakeConfigureCommand c = Some [] then Some (Error ''CMake configure command cannot be empty'')
      else if cfg_cmakeBuildCommand c = Some [] then Some (Error ''CMake build command cannot be empty'')
      else if cfg_executeCommand c = Some [] then Some (Error ''Execution command cannot be empty'')
      else None)"

text \<open>
  \<^verbatim>\<open>fileName.replace(/\.[^.]+$/, '.out')\<close>: the part from the last dot on is replaced
  when at least one character follows that dot; otherwise the name is unchanged.
\<close>

definition replace_ext_out :: "string \<Rightarrow> string" where
  "replace_ext_out f =
     (let suffix = rev (takeWhile (\<lambda>c. c \<noteq> CHR ''.'') (rev f))
      in if CHR ''.'' \<in> set f \<and> suffix \<noteq> []
         then take (length f - length suffix - 1) f @ ''.out'' else f)"

text \<open>\<^verbatim>\<open>fileName.replace(/\.cu$/, '.out')\<close>.\<close>

definition replace_cu_out :: "string \<Rightarrow> string" where
  "replace_cu_out f =
     (if length f \<ge> 3 \<and> drop (length f - 3) f = ''.cu''
      then take (length f - 3) f @ ''.out'' else f)"

fun buildExecutionCommand :: "executor \<Rightarrow> job_config \<Rightarrow> string \<Rightarrow> string \<Rightarrow> string" where
  "buildExecutionCommand PythonExecutor c jobDir fname =
     (if extname fname = ''.ipynb''
      then ''jupyter nbconvert --to notebook --execute --inplace '' @ fname @
           '' --ExecutePreprocessor.timeout=-1''
      else ''python '' @ fname)"
| "buildExecutionCommand CppExecutor c jobDir fname =
     (let executable = replace_ext_out fname;
          compiler = (if extname fname = ''.c'' then ''gcc'' else ''g++'');
          optimizationLevel = or_default (cfg_optimizationLevel c) ''-O3'';
          extraFlags = or_default (cfg_extraFlags c) [];
          includeFlags = or_default (cfg_includeFlags c) [];
          compileCmd = compiler @ '' '' @ fname @ '' -o '' @ executable @ '' '' @ optimizationLevel @
                       '' -march=native '' @ extraFlags @ '' '' @ includeFlags;
          executeCmd = ''./'' @ executable
      in compileCmd @ [CHR 0x0A] @ executeCmd)"
| "buildExecutionCommand CudaExecutor c jobDir fname =
     (let compileCmd = or_default (cfg_compileCommand c)
                         (''nvcc '' @ fname @ '' -o '' @ replace_cu_out fname @ '' -O3 -arch=sm_75'');
          executeCmd = or_default (cfg_executeCommand c) (''./'' @ replace_cu_out fname)
      in compileCmd @ [CHR 0x0A] @ executeCmd)"
| "buildExecutionCommand CMakeExecutor c jobDir fname =
     join [CHR 0x0A]
       [''# CMake configuration'',
        or_default (cfg_cmakeConfigureCommand c) ''cmake -S . -B build -DCMAKE_BUILD_TYPE=Release'',
        [],
        ''# Build'',
        or_default (cfg_cmakeBuildCommand c) ''cmake --build build -j $SLURM_CPUS_PER_TASK'',
        [],
        ''# Execute'',
        or_default (cfg_executeCommand c) ''./build/main'']"

definition cuda_setup :: "string \<Rightarrow> string" where
  \<open>cuda_setup title =
     join [CHR 0x0A]
       [title,
        ''module load cuda'',
        ''echo "CUDA Version: $(nvcc --version | grep release)"'',
        ''echo "GPU Info:"'',
        ''nvidia-smi --query-gpu=name,driver_version,memory.total --format=csv,noheader'']\<close>

fun getEnvironmentSetup :: "executor \<Rightarrow> job_config \<Rightarrow> cluster_info \<Rightarrow> string" where
  "getEnvironmentSetup PythonExecutor c info =
     ''source '' @ venvsDir info @ ''/'' @
       (case cfg_pythonEnv c of None \<Rightarrow> ''undefined'' | Some v \<Rightarrow> v) @ ''/bin/activate''"
| "getEnvironmentSetup CppExecutor c info = ''# No Python environment needed for C/C++''"
| "getEnvironmentSetup CudaExecutor c info = cuda_setup ''# Load CUDA module''"
| "getEnvironmentSetup CMakeExecutor c info =
     (if cfg_gpus c > 0 then cuda_setup ''# Load CUDA module for CMake CUDA support''
      else ''# CMake project (no CUDA)'')"

text \<open>
  The five sections of the script. Each is built as a list of lines, which is then joined
  by newlines.
\<close>

definition header_lines :: "job_config \<Rightarrow> string \<Rightarrow> string list" where
  \<open>header_lines c jobDir =
     ([''#!/bin/bash'',
         ''#SBATCH --job-name='' @ cfg_name c,
         ''#SBATCH --output='' @ jobDir @ ''/slurm-%j.out'',
         ''#SBATCH --error='' @ jobDir @ ''/slurm-%j.err'',
         ''#SBATCH --partition='' @ cfg_partition c,
         ''#SBATCH --nodes=1'',
         ''#SBATCH --ntasks=1'',
         ''#SBATCH --cpus-per-task='' @ show_int (cfg_cpus c)] @
        (if cfg_gpus c > 0 then [''#SBATCH --gres=gpu:'' @ show_int (cfg_gpus c)] else []) @
        [''#SBATCH --mem='' @ cfg_memory c,
         ''#SBATCH --time='' @ cfg_time c,
         [],
         ''echo "=========================================="'',
         ''echo "Job ID: $SLURM_JOB_ID"'',
         ''echo "Job Name: '' @ cfg_name c @ ''"'',
         ''echo "Running on: $(hostname)"'',
         ''echo "Starting at: $(date +%s)"'',
         ''echo "=========================================="''])\<close>

definition buildHeader :: "job_config \<Rightarrow> string \<Rightarrow> string" where
  "buildHeader c jobDir = join [CHR 0x0A] (header_lines c jobDir)"

definition environment_lines :: "string \<Rightarrow> string \<Rightarrow> string list" where
  \<open>environment_lines envSetup jobDir =
     [''# Environment setup'',
        ''export OMP_NUM_THREADS=$SLURM_CPUS_PER_TASK'',
        ''echo "OMP_NUM_THREADS: $OMP_NUM_THREADS"'',
        [],
        envSetup,
        ''cd '' @ jobDir]\<close>

definition buildEnvironment :: "string \<Rightarrow> string \<Rightarrow> string" where
  "buildEnvironment envSetup jobDir = join [CHR 0x0A] (environment_lines envSetup jobDir)"

definition execution_lines :: "job_config \<Rightarrow> string \<Rightarrow> string \<Rightarrow> string list" where
  \<open>execution_lines c jobDir executionCommand =
     [''# Execution'',
        ''START_TIME=$(date +%s)'',
        [],
        ''echo "Executing: '' @ cfg_fileName c @ ''"'',
        [],
        ''# Capture stdout and stderr separately'',
        ''('' @ executionCommand @ '') > execution_log.txt 2> execution_errors.txt'',
        [],
        ''EXIT_CODE=$?'',
        ''END_TIME=$(date +%s)'',
        ''DURATION=$((END_TIME - START_TIME))'']\<close>

definition buildExecution :: "job_config \<Rightarrow> string \<Rightarrow> string \<Rightarrow> string" where
  "buildExecution c jobDir executionCommand =
     join [CHR 0x0A] (execution_lines c jobDir executionCommand)"

definition status_lines :: "job_config \<Rightarrow> string \<Rightarrow> string list" where
  \<open>status_lines c jobDir =
     (let inputFilesList =
            join '', '' (map (\<lambda>f. ''"'' @ basename f @ ''"'') (cfg_inputFiles c))
      in [''# Capture metadata'',
        ''OUTPUT_FILES=$(ls -1 '' @ jobDir @ '' 2>/dev/null | grep -v -e "job.sbatch" -e "slurm-" -e "status.json" -e "execution_" -e "'' @ cfg_fileName c @ ''" $(for f in '' @ join '' '' (map basename (cfg_inputFiles c)) @ ''; do echo "-e '' @ [CHR 0x5C] @ ''"$f'' @ [CHR 0x5C] @ ''""; done) || echo "")'',
        [],
        ''if [ $EXIT_CODE -eq 0 ]; then'',
        ''    JOB_STATUS="COMPLETED"'',
        ''else'',
        ''    JOB_STATUS="FAILED"'',
        ''fi'',
        [],
        ''HOSTNAME=$(hostname)'',
        [],
        ''# Format timestamps'',
        ''if date --version >/dev/null 2>&1; then'',
        ''    START_ISO=$(date -d @$START_TIME -Iseconds)'',
        ''    END_ISO=$(date -d @$END_TIME -Iseconds)'',
        ''else'',
        ''    START_ISO=$(date -u -r $START_TIME +"%Y-%m-%dT%H:%M:%S+00:00")'',
        ''    END_ISO=$(date -u -r $END_TIME +"%Y-%m-%dT%H:%M:%S+00:00")'',
        ''fi'',
        [],
        ''# Format output files as JSON array (without jq)'',
        ''OUTPUT_JSON="["'',
        ''FIRST=true'',
        ''while IFS= read -r file; do'',
        ''    if [ -n "$file" ]; then'',
        ''        if [ "$FIRST" = true ]; then'',
        ''            OUTPUT_JSON="${OUTPUT_JSON}'' @ [CHR 0x5C] @ ''"${file}'' @ [CHR 0x5C] @ ''""'',
        ''            FIRST=false'',
        ''        else'',
        ''            OUTPUT_JSON="${OUTPUT_JSON}, '' @ [CHR 0x5C] @ ''"${file}'' @ [CHR 0x5C] @ ''""'',
        ''        fi'',
        ''    fi'',
        ''done <<< "$OUTPUT_FILES"'',
        ''OUTPUT_JSON="${OUTPUT_JSON}]"'',
        [],
        ''# Write status.json'',
        ''cat > '' @ jobDir @ ''/status.json << EOFSTATUS'',
        ''{'',
        ''  "jobId": "'' @ cfg_id c @ ''",'',
        ''  "slurmId": "$SLURM_JOB_ID",'',
        ''  "status": "$JOB_STATUS",'',
        ''  "submitted": "'' @ cfg_submitted c @ ''",'',
        ''  "started": "$START_ISO",'',
        ''  "completed": "$END_ISO",'',
        ''  "duration": $DURATION,'',
        ''  "exitCode": $EXIT_CODE,'',
        ''  "resources": {'',
        ''    "partition": "'' @ cfg_partition c @ ''",'',
        ''    "gpus": '' @ show_int (cfg_gpus c) @ '','',
        ''    "cpus": '' @ show_int (cfg_cpus c) @ '','',
        ''    "memory": "'' @ cfg_memory c @ ''",'',
        ''    "timeLimit": "'' @ cfg_time c @ ''"'',
        ''  },'',
        ''  "files": {'',
        ''    "script": "'' @ cfg_fileName c @ ''",'',
        ''    "inputs": ['' @ inputFilesList @ ''],'',
        ''    "outputs": $OUTPUT_JSON'',
        ''  },'',
        ''  "pythonEnv": "'' @ or_default (cfg_pythonEnv c) ''N/A'' @ ''",'',
        ''  "node": "$HOSTNAME",'',
        ''  "errors": []'',
        ''}'',
        ''EOFSTATUS''])\<close>

definition buildStatusCapture :: "job_config \<Rightarrow> string \<Rightarrow> string" where
  "buildStatusCapture c jobDir = join [CHR 0x0A] (status_lines c jobDir)"

definition footer_lines :: "string list" where
  \<open>footer_lines =
     [''# Final status'',
        ''if [ $EXIT_CODE -eq 0 ]; then'',
        ''    echo "Job completed successfully"'',
        ''else'',
        ''    echo "Job failed with exit code $EXIT_CODE"'',
        ''fi'',
        [],
        ''echo "=========================================="'',
        ''echo "Finished at: $(date)"'',
        ''echo "Duration: $DURATION seconds"'',
        ''echo "=========================================="'',
        [],
        ''echo "Output files: execution_log.txt, execution_errors.txt"'']\<close>

definition buildFooter :: string where
  "buildFooter = join [CHR 0x0A] footer_lines"

definition buildScript :: "job_config \<Rightarrow> cluster_info \<Rightarrow> error + string" where
  "buildScript c info =
     (let jobDir = jobsDir info @ ''/'' @ cfg_id c
      in case createExecutor (cfg_fileName c) of
           Inl err \<Rightarrow> Inl err
         | Inr ex \<Rightarrow>
             (case validate ex c of
                Some err \<Rightarrow> Inl err
              | None \<Rightarrow>
                  let executionCommand = buildExecutionCommand ex c jobDir (cfg_fileName c);
                      envSetup = getEnvironmentSetup ex c info
                  in Inr (join [CHR 0x0A, CHR 0x0A]
                            [buildHeader c jobDir,
                             buildEnvironment envSetup jobDir,
                             buildExecution c jobDir executionCommand,
                             buildStatusCapture c jobDir,
                             buildFooter])))"

text \<open>
  The lines of a script, and those among them that are GPU directives. A string is a
  single line when it holds no newline.
\<close>

definition script_lines :: "string \<Rightarrow> string list" where
  "script_lines s = split_on (CHR 0x0A) s"

definition gres_directives :: "string \<Rightarrow> string list" where
  "gres_directives s = filter (\<lambda>l. startsWith l ''#SBATCH --gres'') (script_lines s)"

definition single_line :: "string \<Rightarrow> bool" where
  "single_line s = (CHR 0x0A \<notin> set s)"

text \<open>
  The file kinds the submit command of the extension accepts, and a configuration all of
  whose text fields are single lines.
\<close>

definition supportedExtensions :: "string list" where
  "supportedExtensions = [''.py'', ''.ipynb'', ''.c'', ''.cpp'']"

fun single_line_opt :: "string option \<Rightarrow> bool" where
  "single_line_opt None = True"
| "single_line_opt (Some s) = single_line s"

definition plain_job :: "job_config \<Rightarrow> cluster_info \<Rightarrow> bool" where
  "plain_job c info =
     (single_line (cfg_name c) \<and> single_line (cfg_partition c) \<and> single_line (cfg_memory c)
      \<and> single_line (cfg_time c) \<and> single_line (cfg_id c) \<and> single_line (cfg_fileName c)
      \<and> single_line (cfg_submitted c) \<and> single_line (jobsDir info) \<and> single_line (venvsDir info)
      \<and> list_all (\<lambda>f. single_line (basename f)) (cfg_inputFiles c)
      \<and> single_line_opt (cfg_pythonEnv c) \<and> single_line_opt (cfg_extraFlags c)
      \<and> single_line_opt (cfg_includeFlags c))"

section \<open>Remote calls and the poll pass (ClusterManager)\<close>

text \<open>
  \<^verbatim>\<open>executeCommand\<close> and \<^verbatim>\<open>uploadFile\<close> resolve with the remote side's answer or reject
  with its error; either way the call is appended to the log. Of the resolved command
  result only \<^verbatim>\<open>stdout\<close> is read by the callers.
\<close>

definition executeCommand :: "env \<Rightarrow> string \<Rightarrow> world \<Rightarrow> (error + string) \<times> world" where
  "executeCommand e cmd w = (respond e (trace w) (Exec cmd), w\<lparr>trace := trace w @ [Exec cmd]\<rparr>)"

definition uploadFile :: "env \<Rightarrow> string \<Rightarrow> string \<Rightarrow> world \<Rightarrow> (error + string) \<times> world" where
  "uploadFile e localPath remotePath w =
     (respond e (trace w) (Upload localPath remotePath),
      w\<lparr>trace := trace w @ [Upload localPath remotePath]\<rparr>)"

definition ensureStorage :: "env \<Rightarrow> world \<Rightarrow> (error + unit) \<times> world" where
  "ensureStorage e w =
     (case initialize e w of (Inl err, w') \<Rightarrow> (Inl err, w') | (Inr d, w') \<Rightarrow> (Inr (), w'))"

text \<open>
  Reading a property that is no built-in one: \<^verbatim>\<open>null\<close> throws, an object looks the key
  up, every other value gives \<^verbatim>\<open>undefined\<close> (here \<open>None\<close>).
\<close>

fun get_prop :: "json \<Rightarrow> string \<Rightarrow> error + json option" where
  "get_prop JNull k = Inl TypeError"
| "get_prop (JObj kvs) k = Inr (map_of kvs k)"
| "get_prop v k = Inr None"

fun truthy :: "json option \<Rightarrow> bool" where
  "truthy None = False"
| "truthy (Some JNull) = False"
| "truthy (Some (JBool b)) = b"
| "truthy (Some (JNum n)) = (n \<noteq> 0)"
| "truthy (Some (JStr s)) = (s \<noteq> [])"
| "truthy (Some (JArr xs)) = True"
| "truthy (Some (JObj kvs)) = True"

text \<open>
  \<^verbatim>\<open>v.includes(c)\<close>: a substring test on a string, a membership test on an array, and a
  \<^verbatim>\<open>TypeError\<close> on every other value, which has no such method.
\<close>

fun js_includes :: "json \<Rightarrow> string \<Rightarrow> error + bool" where
  "js_includes (JStr s) c = Inr (includes_str s c)"
| "js_includes (JArr xs) c = Inr (JStr c \<in> set xs)"
| "js_includes v c = Inl TypeError"

text \<open>
  The inner \<^verbatim>\<open>try\<close> block of \<^verbatim>\<open>getJobStatus\<close>: the job has left the queue, so read
  \<^verbatim>\<open>status.json\<close> from its remote directory. An \<open>Inl\<close> result is an exception that the
  \<^verbatim>\<open>catch\<close> around the block receives.
\<close>

definition cat_status_command :: "job \<Rightarrow> string" where
  "cat_status_command j = ''cat '' @ remoteDir j @ ''/status.json 2>/dev/null''"

definition status_from_file :: "env \<Rightarrow> job \<Rightarrow> world \<Rightarrow> (error + job) \<times> world" where
  "status_from_file e j w =
     (case executeCommand e (cat_status_command j) w of
        (Inl err, w') \<Rightarrow> (Inl err, w')
      | (Inr out, w') \<Rightarrow>
          if out \<noteq> [] \<and> trim out \<noteq> [] then
            (case JSON_parse e out of
               None \<Rightarrow> (Inl SyntaxError, w')
             | Some sdata \<Rightarrow>
                 (case get_prop sdata ''status'' of
                    Inl err \<Rightarrow> (Inl err, w')
                  | Inr st \<Rightarrow>
                      if \<not> truthy st then (Inr (j\<lparr>status := JStr ''COMPLETED''\<rparr>), w')
                      else
                        (case js_includes (the st) ''$'' of
                           Inl err \<Rightarrow> (Inl err, w')
                         | Inr dollar \<Rightarrow>
                             if dollar then (Inr (j\<lparr>status := JStr ''COMPLETED''\<rparr>), w')
                             else
                               (case js_includes (the st) ''['' of
                                  Inl err \<Rightarrow> (Inl err, w')
                                | Inr bracket \<Rightarrow>
                                    if bracket then (Inr (j\<lparr>status := JStr ''COMPLETED''\<rparr>), w')
                                    else (Inr (j\<lparr>status := the st, statusData := Some sdata\<rparr>), w')))))
          else (Inr (j\<lparr>status := JStr ''UNKNOWN''\<rparr>), w'))"

definition squeue_command :: "job \<Rightarrow> string" where
  "squeue_command j =
     ''squeue -j '' @ the (slurmId j) @ '' -o '' @ [CHR 0x27] @ ''%T'' @ [CHR 0x27] @ '' -h''"

text \<open>One iteration of the loop over the ledger in \<^verbatim>\<open>getJobStatus\<close>.\<close>

definition check_job :: "env \<Rightarrow> job \<Rightarrow> world \<Rightarrow> job \<times> world" where
  "check_job e j w =
     (if truthy_str (slurmId j) \<and> status j \<noteq> JStr ''COMPLETED'' \<and> status j \<noteq> JStr ''FAILED'' then
        (case executeCommand e (squeue_command j) w of
           (Inl err, w') \<Rightarrow> (j\<lparr>status := JStr ''UNKNOWN''\<rparr>, w')
         | (Inr out, w') \<Rightarrow>
             if trim out \<noteq> [] then (j\<lparr>status := JStr (trim out)\<rparr>, w')
             else
               (case status_from_file e j w' of
                  (Inl err, w'') \<Rightarrow> (j\<lparr>status := JStr ''UNKNOWN''\<rparr>, w'')
                | (Inr j', w'') \<Rightarrow> (j', w'')))
      else (j, w))"

fun check_jobs :: "env \<Rightarrow> job list \<Rightarrow> world \<Rightarrow> job list \<times> world" where
  "check_jobs e [] w = ([], w)"
| "check_jobs e (j # js) w =
     (case check_job e j w of
        (j', w') \<Rightarrow> (case check_jobs e js w' of (js', w'') \<Rightarrow> (j' # js', w'')))"

text \<open>
  \<^verbatim>\<open>getJobStatus\<close>: make sure storage is initialised, load the ledger, run the loop, save
  the whole ledger, and return the records that are neither COMPLETED nor FAILED.
\<close>

definition is_active :: "job \<Rightarrow> bool" where
  "is_active j = (status j \<noteq> JStr ''COMPLETED'' \<and> status j \<noteq> JStr ''FAILED'')"

definition getJobStatus :: "env \<Rightarrow> world \<Rightarrow> (error + job list) \<times> world" where
  "getJobStatus e w =
     (case ensureStorage e w of
        (Inl err, w1) \<Rightarrow> (Inl err, w1)
      | (Inr u, w1) \<Rightarrow>
          (case loadJobs w1 of
             Inl err \<Rightarrow> (Inl err, w1)
           | Inr jobs \<Rightarrow>
               (case check_jobs e jobs w1 of
                  (jobs', w2) \<Rightarrow>
                    (case saveJobs jobs' w2 of
                       Inl err \<Rightarrow> (Inl err, w2)
                     | Inr w3 \<Rightarrow> (Inr (filter is_active jobs'), w3)))))"

text \<open>
  A status query that fails: the queue lookup is rejected, or the job has left the queue
  and reading the metadata file is rejected or yields text that \<^verbatim>\<open>JSON.parse\<close> refuses.
\<close>

definition query_fails :: "env \<Rightarrow> job \<Rightarrow> world \<Rightarrow> bool" where
  "query_fails e j w =
     (case respond e (trace w) (Exec (squeue_command j)) of
        Inl err \<Rightarrow> True
      | Inr out \<Rightarrow>
          trim out = [] \<and>
          (case respond e (trace w @ [Exec (squeue_command j)]) (Exec (cat_status_command j)) of
             Inl err \<Rightarrow> True
           | Inr file \<Rightarrow> trim file \<noteq> [] \<and> JSON_parse e file = None))"

text \<open>A remote side whose answer to a call does not depend on the calls made before.\<close>

definition stateless :: "env \<Rightarrow> bool" where
  "stateless e = (\<forall>h c. respond e h c = respond e [] c)"

section \<open>Job submission and remote cleanup (ClusterManager)\<close>

definition is_digit :: "char \<Rightarrow> bool" where
  "is_digit c = (c \<in> set ''0123456789'')"

text \<open>
  \<^verbatim>\<open>stdout.match(/Submitted batch job (\d+)/)\<close>: the digits captured at the leftmost place
  where the fixed text is followed by a digit, or \<open>None\<close> when there is no match.
\<close>

fun match_submitted :: "string \<Rightarrow> string option" where
  "match_submitted [] = None"
| "match_submitted (c # cs) =
     (let rest = drop (length ''Submitted batch job '') (c # cs)
      in if startsWith (c # cs) ''Submitted batch job '' \<and> rest \<noteq> [] \<and> is_digit (hd rest)
         then Some (takeWhile is_digit rest)
         else match_submitted cs)"

text \<open>The loop that uploads the auxiliary input files; it stops at the first rejection.\<close>

fun upload_inputs :: "env \<Rightarrow> string \<Rightarrow> string list \<Rightarrow> world \<Rightarrow> (error + unit) \<times> world" where
  "upload_inputs e remoteJobDir [] w = (Inr (), w)"
| "upload_inputs e remoteJobDir (f # fs) w =
     (case uploadFile e f (remoteJobDir @ ''/'' @ basename f) w of
        (Inl err, w') \<Rightarrow> (Inl err, w')
      | (Inr r, w') \<Rightarrow> upload_inputs e remoteJobDir fs w')"

text \<open>
  \<^verbatim>\<open>submitJob\<close> from reading the cluster paths to parsing the scheduler's answer: every
  step before the ledger is touched. The result is the record that \<^verbatim>\<open>submitJob\<close> will
  append. The clock is read twice, for the identifier and for the submission time.
\<close>

definition submit_remote ::
  "env \<Rightarrow> string \<Rightarrow> string list option \<Rightarrow> job_config \<Rightarrow> world \<Rightarrow> (error + job) \<times> world" where
  "submit_remote e fpath inputs c w =
     (case getClusterInfo (vscode_settings e) of
        Inl err \<Rightarrow> (Inl err, w)
      | Inr clusterInfo \<Rightarrow>
          let fname = basename fpath;
              jid = generateJobId (clock e (ticks w));
              sub = toISOString (clock e (ticks w + 1));
              w0 = w\<lparr>ticks := ticks w + 2\<rparr>;
              files = (case inputs of None \<Rightarrow> [] | Some fs \<Rightarrow> fs);
              jobConfig = c\<lparr>cfg_id := jid, cfg_fileName := fname, cfg_submitted := sub,
                            cfg_inputFiles := files\<rparr>;
              remoteJobDir = jobsDir clusterInfo @ ''/'' @ jid
          in case executeCommand e (''mkdir -p '' @ remoteJobDir) w0 of
               (Inl err, w1) \<Rightarrow> (Inl err, w1)
             | (Inr r1, w1) \<Rightarrow>
                 (case uploadFile e fpath (remoteJobDir @ ''/'' @ fname) w1 of
                    (Inl err, w2) \<Rightarrow> (Inl err, w2)
                  | (Inr r2, w2) \<Rightarrow>
                      (case upload_inputs e remoteJobDir files w2 of
                         (Inl err, w3) \<Rightarrow> (Inl err, w3)
                       | (Inr u, w3) \<Rightarrow>
                           (case buildScript jobConfig clusterInfo of
                              Inl err \<Rightarrow> (Inl err, w3)
                            | Inr slurmScript \<Rightarrow>
                                (case uploadFile e (path_join [tmpdir e, ''job_'' @ jid @ ''.sbatch''])
                                        (remoteJobDir @ ''/job.sbatch'') w3 of
                                   (Inl err, w4) \<Rightarrow> (Inl err, w4)
                                 | (Inr r4, w4) \<Rightarrow>
                                     (case executeCommand e
                                             (''cd '' @ remoteJobDir @ '' && sbatch job.sbatch'') w4 of
                                        (Inl err, w5) \<Rightarrow> (Inl err, w5)
                                      | (Inr out, w5) \<Rightarrow>
                                          (Inr \<lparr>jobId = jid, slurmId = match_submitted out,
                                                 name = cfg_name c, fileName = fname, filePath = fpath,
                                                 inputFiles = inputs, remoteDir = remoteJobDir,
                                                 submitted = sub, status = JStr ''PENDING'',
                                                 config = jobConfig, statusData = None\<rparr>,
                                           w5)))))))"

text \<open>\<^verbatim>\<open>submitJob\<close>: the steps above, then load the ledger, append the record and save.\<close>

definition submitJob ::
  "env \<Rightarrow> string \<Rightarrow> string list option \<Rightarrow> job_config \<Rightarrow> world
     \<Rightarrow> (error + string \<times> string option) \<times> world" where
  "submitJob e fpath inputs c w =
     (case ensureStorage e w of
        (Inl err, w0) \<Rightarrow> (Inl err, w0)
      | (Inr u, w0) \<Rightarrow>
          (case submit_remote e fpath inputs c w0 of
             (Inl err, w1) \<Rightarrow> (Inl err, w1)
           | (Inr j, w1) \<Rightarrow>
               (case loadJobs w1 of
                  Inl err \<Rightarrow> (Inl err, w1)
                | Inr jobs \<Rightarrow>
                    (case saveJobs (jobs @ [j]) w1 of
                       Inl err \<Rightarrow> (Inl err, w1)
                     | Inr w2 \<Rightarrow> (Inr (jobId j, slurmId j), w2)))))"

text \<open>
  \<^verbatim>\<open>cleanRemoteJob\<close>: find the record by identifier (throwing when there is none) and
  remove its remote directory.
\<close>

definition cleanRemoteJob :: "env \<Rightarrow> string \<Rightarrow> world \<Rightarrow> (error + unit) \<times> world" where
  "cleanRemoteJob e jid w =
     (case ensureStorage e w of
        (Inl err, w0) \<Rightarrow> (Inl err, w0)
      | (Inr u, w0) \<Rightarrow>
          (case loadJobs w0 of
             Inl err \<Rightarrow> (Inl err, w0)
           | Inr jobs \<Rightarrow>
               (case find (\<lambda>j. jobId j = jid) jobs of
                  None \<Rightarrow> (Inl (Error (''Job '' @ jid @ '' not found'')), w0)
                | Some j \<Rightarrow>
                    (case executeCommand e (''rm -rf '' @ remoteDir j) w0 of
                       (Inl err, w1) \<Rightarrow> (Inl err, w1)
                     | (Inr r, w1) \<Rightarrow> (Inr (), w1)))))"

text \<open>
  The records a ledger file holds (none when it is missing or damaged), and a run of calls
  each of which the remote side answers without rejecting, given the calls before it.
\<close>

fun records :: "jobs_file \<Rightarrow> job list" where
  "records (Ledger js) = js"
| "records f = []"

fun all_answered :: "env \<Rightarrow> io_call list \<Rightarrow> io_call list \<Rightarrow> bool" where
  "all_answered e h [] = True"
| "all_answered e h (c # cs) = (\<not> isl (respond e h c) \<and> all_answered e (h @ [c]) cs)"

text \<open>
  The remote calls of one submission, in order: create the job directory, upload the
  primary file, upload each input file, upload the script, submit it.
\<close>

definition submission_calls :: "string \<Rightarrow> string \<Rightarrow> string list \<Rightarrow> string \<Rightarrow> io_call list" where
  "submission_calls dir fpath files script =
     [Exec (''mkdir -p '' @ dir), Upload fpath (dir @ ''/'' @ basename fpath)] @
     map (\<lambda>f. Upload f (dir @ ''/'' @ basename f)) files @
     [Upload script (dir @ ''/job.sbatch''), Exec (''cd '' @ dir @ '' && sbatch job.sbatch'')]"

section \<open>Path validation (SafetyManager)\<close>

text \<open>
  Both validators return \<^verbatim>\<open>true\<close> or throw an \<^verbatim>\<open>Error\<close> whose message starts with
  \<^verbatim>\<open>SECURITY:\<close>.
\<close>

definition validatePath :: "settings \<Rightarrow> string \<Rightarrow> error + bool" where
  "validatePath s remotePath =
     (case getClusterInfo s of
        Inl err \<Rightarrow> Inl err
      | Inr clusterInfo \<Rightarrow>
          let normalizedPath = normalize_path remotePath
          in if \<not> startsWith normalizedPath (scratchDir clusterInfo)
             then Inl (Error (''SECURITY: Path outside scratch directory: '' @ remotePath @
                              '' (must be in '' @ scratchDir clusterInfo @ '')''))
             else if includes_str remotePath ''..''
             then Inl (Error (''SECURITY: Path traversal not allowed: '' @ remotePath))
             else if normalizedPath = ''/'' \<or> normalizedPath = scratchBase clusterInfo
             then Inl (Error (''SECURITY: Cannot access base directories: '' @ remotePath))
             else Inr True)"

definition validateDelete :: "settings \<Rightarrow> string \<Rightarrow> error + bool" where
  "validateDelete s remotePath =
     (case validatePath s remotePath of
        Inl err \<Rightarrow> Inl err
      | Inr ok \<Rightarrow>
          (case getClusterInfo s of
             Inl err \<Rightarrow> Inl err
           | Inr clusterInfo \<Rightarrow>
               if \<not> startsWith remotePath (jobsDir clusterInfo @ ''/'')
               then Inl (Error (''SECURITY: Can only delete inside '' @ jobsDir clusterInfo))
               else if remotePath = jobsDir clusterInfo
               then Inl (Error ''SECURITY: Cannot delete jobs directory itself'')
               else Inr True))"

section \<open>Connection acquisition (ConnectionManager)\<close>

text \<open>
  The fields of the ConnectionManager that \<^verbatim>\<open>connectWithRetry\<close> reads and writes, and a
  log of what it did: each handshake it started and each back-off pause it took, both
  tagged with the attempt number. The length of a pause is randomised and is not modelled.
  A failed handshake is the message of the error it rejected with (empty when the error
  has none); a connection is a number.
\<close>

datatype conn_event = Handshake nat | Sleep nat

record connection_manager =
  connection :: "nat option"
  isConnecting :: bool
  connectionAttempts :: nat
  maxRetries :: nat
  events :: "conn_event list"

definition new_ConnectionManager :: connection_manager where
  "new_ConnectionManager =
     \<lparr>connection = None, isConnecting = False, connectionAttempts = 0, maxRetries = 3, events = []\<rparr>"

text \<open>The error \<^verbatim>\<open>enrichError\<close> builds: its message and the error it wraps.\<close>

record enriched_error =
  enrichedMessage :: string
  originalError :: "string option"

definition isAuthenticationError :: "string \<Rightarrow> bool" where
  "isAuthenticationError msg =
     (\<exists>a \<in> set [''All configured authentication methods failed'', ''NO_SSH_KEY'',
                  ''Authentication failed'', ''Permission denied''].
        msg \<noteq> [] \<and> includes_str msg a)"

fun number_lines :: "nat \<Rightarrow> string list \<Rightarrow> string list" where
  "number_lines i [] = []"
| "number_lines i (x # xs) = (show_nat (i + 1) @ ''. '' @ x) # number_lines (i + 1) xs"

definition enrichError :: "settings \<Rightarrow> string option \<Rightarrow> enriched_error" where
  "enrichError cfg err =
     (case err of
        None \<Rightarrow> \<lparr>enrichedMessage = ''Unknown connection error'', originalError = None\<rparr>
      | Some msg \<Rightarrow>
          let suggestions =
            (if msg \<noteq> [] \<and> includes_str msg ''NO_SSH_KEY'' then
               [''Create SSH key: ssh-keygen -t ed25519 -f ~/.ssh/id_ed25519'',
                ''Copy key to server: ssh-copy-id user@host'']
             else if msg \<noteq> [] \<and> includes_str msg ''SSH_TIMEOUT'' then
               [''Check network connection'', ''Verify VPN is connected (if required)'',
                ''Check firewall settings'']
             else if msg \<noteq> [] \<and> includes_str msg ''ECONNREFUSED'' then
               [''Verify host address: '' @ (case get_setting (clusterHost cfg) of None \<Rightarrow> ''null'' | Some h \<Rightarrow> h),
                ''Verify SSH port: '' @ (case sshPort cfg of None \<Rightarrow> ''null'' | Some p \<Rightarrow> show_int p),
                ''Check if SSH service is running on cluster'']
             else if msg \<noteq> [] \<and> includes_str msg ''ENOTFOUND'' then
               [''Check host name spelling'', ''Verify DNS resolution'']
             else [])
          in \<lparr>enrichedMessage =
                (if msg = [] then ''Connection failed'' else msg) @
                (if suggestions \<noteq> []
                 then [CHR 0x0A, CHR 0x0A, CHR 0xF0, CHR 0x9F, CHR 0x92, CHR 0xA1] @ '' Suggestions:'' @
                      [CHR 0x0A] @ join [CHR 0x0A] (number_lines 0 suggestions)
                 else []),
              originalError = Some msg\<rparr>)"

text \<open>
  The \<^verbatim>\<open>for\<close> loop of \<^verbatim>\<open>connectWithRetry\<close>, from attempt number \<open>attempt\<close> on, with
  the last error seen so far. \<open>establish k\<close> is the outcome of the handshake of attempt \<open>k\<close>.
\<close>

function connect_loop ::
  "(nat \<Rightarrow> string + nat) \<Rightarrow> settings \<Rightarrow> nat \<Rightarrow> string option \<Rightarrow> connection_manager
     \<Rightarrow> (enriched_error + nat) \<times> connection_manager" where
  "connect_loop establish cfg attempt lastError m =
     (if attempt < maxRetries m then
        (let m1 = m\<lparr>connectionAttempts := attempt + 1, events := events m @ [Handshake attempt]\<rparr>
         in case establish attempt of
              Inr conn \<Rightarrow>
                (Inr conn, m1\<lparr>connection := Some conn, connectionAttempts := 0, isConnecting := False\<rparr>)
            | Inl err \<Rightarrow>
                if isAuthenticationError err
                then (Inl (enrichError cfg (Some err)), m1\<lparr>isConnecting := False\<rparr>)
                else connect_loop establish cfg (attempt + 1) (Some err)
                       (if attempt < maxRetries m - 1
                        then m1\<lparr>events := events m1 @ [Sleep attempt]\<rparr> else m1))
      else (Inl (enrichError cfg lastError), m\<lparr>isConnecting := False\<rparr>))"
  by pat_completeness auto
termination
  by (relation "measure (\<lambda>(establish, cfg, attempt, lastError, m). maxRetries m - attempt)") auto

declare connect_loop.simps [simp del]

definition connectWithRetry ::
  "(nat \<Rightarrow> string + nat) \<Rightarrow> settings \<Rightarrow> connection_manager
     \<Rightarrow> (enriched_error + nat) \<times> connection_manager" where
  "connectWithRetry establish cfg m = connect_loop establish cfg 0 None (m\<lparr>isConnecting := True\<rparr>)"

text \<open>The attempt numbers of the handshakes in a log.\<close>

fun handshakes :: "conn_event list \<Rightarrow> nat list" where
  "handshakes [] = []"
| "handshakes (Handshake k # evs) = k # handshakes evs"
| "handshakes (Sleep k # evs) = handshakes evs"

text \<open>The attempt numbers of the handshakes made between two states of the manager.\<close>

definition attempts_made :: "connection_manager \<Rightarrow> connection_manager \<Rightarrow> nat list" where
  "attempts_made m m' = handshakes (drop (length (events m)) (events m'))"

section \<open>A concrete scenario\<close>

text \<open>
  A compiled-native job as the dialogs produce it, a ledger record for it, an initialised
  workspace holding a given ledger, and a remote side that answers the calls of a table with fixed
  results and rejects every other call.
\<close>

definition demo_settings :: settings where
  "demo_settings =
     \<lparr>clusterHost = Some ''hpc.example.com'', username = Some ''alice@example.com'', sshPort = Some 22\<rparr>"

definition demo_date :: "nat \<Rightarrow> nat \<Rightarrow> date" where
  "demo_date s ms =
     \<lparr>year = 2024, month = 1, day = 15, hours = 10, minutes = 30, seconds = s, milliseconds = ms\<rparr>"

definition demo_config :: job_config where
  "demo_config =
     \<lparr>cfg_name = ''demo'', cfg_partition = ''l40'', cfg_gpus = 0, cfg_cpus = 4,
      cfg_memory = ''16G'', cfg_time = ''02:00:00'', cfg_pythonEnv = Some ''base_env'',
      cfg_optimizationLevel = Some ''-O3'', cfg_extraFlags = Some [], cfg_includeFlags = Some [],
      cfg_compileCommand = None, cfg_executeCommand = None,
      cfg_cmakeConfigureCommand = None, cfg_cmakeBuildCommand = None,
      cfg_id = ''2024-01-15T10-30-00-123'', cfg_fileName = ''main.c'',
      cfg_submitted = ''2024-01-15T10:30:00.123Z'', cfg_inputFiles = []\<rparr>"

definition demo_job :: "string \<Rightarrow> string option \<Rightarrow> json \<Rightarrow> job" where
  "demo_job i sid st =
     \<lparr>jobId = i, slurmId = sid, name = ''demo'', fileName = ''main.c'',
      filePath = ''/home/u/main.c'', inputFiles = Some [],
      remoteDir = ''/scratch.hpc/alice/hpc_jobs/'' @ i,
      submitted = ''2024-01-15T10:30:00.123Z'', status = st,
      config = demo_config, statusData = None\<rparr>"

definition demo_world :: "jobs_file \<Rightarrow> world" where
  "demo_world f =
     \<lparr>jobsFile = Some ''/w/.vscode/.hpc-connector/jobs.json'',
      storageDir = Some ''/w/.vscode/.hpc-connector'',
      disk = (\<lambda>p. if p = ''/w/.vscode/.hpc-connector/jobs.json'' then f else NoFile),
      trace = [], ticks = 0\<rparr>"

definition demo_failed_file :: string where
  \<open>demo_failed_file = ''{"status": "FAILED"}''\<close>

definition demo_crashed_file :: string where
  \<open>demo_crashed_file = ''{"status": "$JOB_STATUS"}''\<close>

definition demo_parse :: "string \<Rightarrow> json option" where
  "demo_parse s =
     (if s = demo_failed_file then Some (JObj [(''status'', JStr ''FAILED'')])
      else if s = demo_crashed_file then Some (JObj [(''status'', JStr ''$JOB_STATUS'')])
      else None)"

definition demo_env :: "(io_call \<Rightarrow> error + string) \<Rightarrow> env" where
  "demo_env answers =
     \<lparr>respond = (\<lambda>h c. answers c), JSON_parse = demo_parse,
      workspaceFolders = [''/w''], showOpenDialog = None,
      vscode_settings = demo_settings, clock = (\<lambda>k. demo_date 0 (123 + k)), tmpdir = ''/tmp''\<rparr>"

definition demo_answers :: "(io_call \<times> (error + string)) list \<Rightarrow> io_call \<Rightarrow> error + string" where
  "demo_answers table c =
     (case map_of table c of Some r \<Rightarrow> r | None \<Rightarrow> Inl (Error ''Connection lost''))"

definition demo_pending :: job where
  "demo_pending = demo_job ''2024-01-15T10-30-00-123'' (Some ''4242'') (JStr ''PENDING'')"

definition demo_sibling :: job where
  "demo_sibling = demo_job ''2024-01-15T10-31-07-456'' (Some ''4243'') (JStr ''PENDING'')"

definition demo_done :: job where
  "demo_done = demo_job ''2024-01-14T09-00-00-000'' (Some ''4100'') (JStr ''COMPLETED'')"

definition demo_unsubmitted :: job where
  "demo_unsubmitted = demo_job ''2024-01-14T09-05-00-000'' None (JStr ''PENDING'')"

definition demo_remote :: "error + string \<Rightarrow> error + string \<Rightarrow> env" where
  "demo_remote queue metafile =
     demo_env (demo_answers [(Exec (squeue_command demo_pending), queue),
                             (Exec (cat_status_command demo_pending), metafile)])"

definition demo_info :: cluster_info where
  "demo_info =
     \<lparr>host = Some ''hpc.example.com'', port = 22, fullUsername = ''alice@example.com'',
      clusterUsername = ''alice'', scratchBase = ''/scratch.hpc'',
      scratchDir = ''/scratch.hpc/alice'', jobsDir = ''/scratch.hpc/alice/hpc_jobs'',
      venvsDir = ''/scratch.hpc/alice/python_venvs''\<rparr>"

definition demo_gpu_config :: job_config where
  "demo_gpu_config = demo_config\<lparr>cfg_gpus := 2, cfg_fileName := ''train.py''\<rparr>"

definition demo_escaping :: job where
  "demo_escaping =
     (demo_job ''2024-01-14T09-10-00-000'' (Some ''4101'') (JStr ''COMPLETED''))
       \<lparr>remoteDir := ''/scratch.hpc/alice/hpc_jobs/../../bob/thesis''\<rparr>"

definition demo_submit_calls :: "io_call list" where
  "demo_submit_calls =
     [Exec ''mkdir -p /scratch.hpc/alice/hpc_jobs/2024-01-15T10-30-00-123'',
      Upload ''/home/u/main.c'' ''/scratch.hpc/alice/hpc_jobs/2024-01-15T10-30-00-123/main.c'',
      Upload ''/tmp/job_2024-01-15T10-30-00-123.sbatch''
             ''/scratch.hpc/alice/hpc_jobs/2024-01-15T10-30-00-123/job.sbatch'',
      Exec ''cd /scratch.hpc/alice/hpc_jobs/2024-01-15T10-30-00-123 && sbatch job.sbatch'']"

definition demo_submit_env :: "io_call list \<Rightarrow> env" where
  "demo_submit_env answered =
     demo_env (demo_answers (map (\<lambda>c. (c, Inr ''Submitted batch job 4242'')) answered))"

section \<open>Properties of the ledger\<close>

lemmas demo_defs = demo_job_def demo_env_def demo_answers_def demo_world_def demo_pending_def
  demo_sibling_def demo_done_def demo_unsubmitted_def demo_parse_def demo_config_def
  demo_failed_file_def demo_crashed_file_def demo_remote_def
  squeue_command_def cat_status_command_def trim_def is_space_def

lemma truthy_str_Some: "truthy_str x \<Longrightarrow> \<exists>p. x = Some p \<and> p \<noteq> []"
  by (cases x) auto

lemma path_join_nonempty: "path_join parts \<noteq> []"
  by (auto simp: path_join_def normalize_path_def Let_def)

lemma initialize_sets_jobsFile:
  "initialize e w = (Inr d, w') \<Longrightarrow> truthy_str (jobsFile w')"
  by (auto simp: initialize_def Let_def path_join_nonempty split: if_splits sum.splits option.splits)

text \<open>
  C10. Once storage is initialised, loading the ledger never raises. A ledger file that is
  missing, unreadable or not JSON loads as the empty list, exactly as a ledger holding the
  empty array does. When the file is there and readable but its content is not JSON, the
  next save replaces that content with the saved records. Nothing is stated of a save onto
  a path that is missing or cannot be read: there the write itself may throw.
\<close>

theorem loadJobs_never_raises:
  assumes "truthy_str (jobsFile w)"
  shows "(\<exists>js. loadJobs w = Inr js)
       \<and> (disk w (the (jobsFile w)) \<in> {NoFile, Unreadable, NotJson} \<longrightarrow>
            loadJobs w = Inr []
          \<and> loadJobs w = loadJobs (w\<lparr>disk := (disk w)(the (jobsFile w) := Ledger [])\<rparr>))
       \<and> (disk w (the (jobsFile w)) = NotJson \<longrightarrow>
            (\<forall>jobs. \<exists>w'. saveJobs jobs w = Inr w' \<and> loadJobs w' = Inr jobs
                          \<and> disk w' (the (jobsFile w')) = Ledger jobs))"
  using assms by (auto simp: loadJobs_def saveJobs_def split: jobs_file.splits)

theorem loadJobs_never_raises_witness:
  "truthy_str (jobsFile (demo_world NotJson))
   \<and> disk (demo_world NotJson) (the (jobsFile (demo_world NotJson))) = NotJson
   \<and> loadJobs (demo_world NotJson) = Inr []
   \<and> loadJobs (demo_world NotJson) = loadJobs (demo_world (Ledger []))
   \<and> (\<exists>w'. saveJobs [demo_pending] (demo_world NotJson) = Inr w'
            \<and> loadJobs w' = Inr [demo_pending])"
proof -
  have init: "truthy_str (jobsFile (demo_world NotJson))" by (simp add: demo_world_def)
  have bad: "disk (demo_world NotJson) (the (jobsFile (demo_world NotJson))) = NotJson"
    by (simp add: demo_world_def)
  note spec = loadJobs_never_raises [OF init]
  have "loadJobs (demo_world NotJson) = Inr []"
    using spec bad by simp
  moreover have "loadJobs (demo_world (Ledger [])) = Inr []"
    by (simp add: demo_world_def loadJobs_def)
  moreover have "\<exists>w'. saveJobs [demo_pending] (demo_world NotJson) = Inr w'
                    \<and> loadJobs w' = Inr [demo_pending]"
    using spec bad by blast
  ultimately show ?thesis using init bad by simp
qed

section \<open>Properties of the poll pass\<close>

lemmas run_defs = getJobStatus_def ensureStorage_def initialize_def loadJobs_def saveJobs_def
  check_job_def executeCommand_def status_from_file_def is_active_def query_fails_def

lemma executeCommand_frame:
  "executeCommand e cmd w = (r, w') \<Longrightarrow>
     jobsFile w' = jobsFile w \<and> storageDir w' = storageDir w \<and> disk w' = disk w
     \<and> trace w' = trace w @ [Exec cmd]"
  by (auto simp: executeCommand_def)

lemma status_from_file_frame:
  "status_from_file e j w = (r, w') \<Longrightarrow>
     jobsFile w' = jobsFile w \<and> storageDir w' = storageDir w \<and> disk w' = disk w"
  by (auto simp: status_from_file_def executeCommand_def Let_def
           split: prod.splits sum.splits option.splits if_splits)

lemma check_job_frame:
  "check_job e j w = (j', w') \<Longrightarrow>
     jobsFile w' = jobsFile w \<and> storageDir w' = storageDir w \<and> disk w' = disk w"
  by (auto simp: check_job_def executeCommand_def dest!: status_from_file_frame
           split: prod.splits sum.splits if_splits)

lemma check_jobs_frame:
  "check_jobs e js w = (js', w') \<Longrightarrow>
     jobsFile w' = jobsFile w \<and> storageDir w' = storageDir w \<and> disk w' = disk w"
proof (induction js arbitrary: w js' w')
  case Nil
  then show ?case by simp
next
  case (Cons j js)
  obtain j1 w1 where a: "check_job e j w = (j1, w1)" by (cases "check_job e j w")
  obtain js2 w2 where b: "check_jobs e js w1 = (js2, w2)" by (cases "check_jobs e js w1")
  from Cons.prems a b have "w' = w2" by simp
  with Cons.IH [OF b] check_job_frame [OF a] show ?case by simp
qed

lemma check_jobs_Cons:
  "check_jobs e (j # js) w =
     (fst (check_job e j w) # fst (check_jobs e js (snd (check_job e j w))),
      snd (check_jobs e js (snd (check_job e j w))))"
  by (simp split: prod.splits)

lemma check_jobs_length: "length (fst (check_jobs e js w)) = length js"
  by (induction js arbitrary: w) (simp_all add: check_jobs_Cons del: check_jobs.simps(2))

lemma check_jobs_nth:
  "i < length js \<Longrightarrow>
     fst (check_jobs e js w) ! i = fst (check_job e (js ! i) (snd (check_jobs e (take i js) w)))"
proof (induction js arbitrary: i w)
  case Nil
  then show ?case by simp
next
  case (Cons j js)
  show ?case
  proof (cases i)
    case 0
    then show ?thesis by (simp add: check_jobs_Cons del: check_jobs.simps(2))
  next
    case (Suc k)
    with Cons.prems have k: "k < length js" by simp
    show ?thesis using Cons.IH [OF k] Suc
      by (simp add: check_jobs_Cons del: check_jobs.simps(2))
  qed
qed

lemma check_job_skips:
  "slurmId j = None \<or> status j = JStr ''COMPLETED'' \<or> status j = JStr ''FAILED'' \<Longrightarrow>
     check_job e j w = (j, w)"
  by (auto simp: check_job_def)

lemma ensureStorage_initialized:
  "truthy_str (jobsFile w) \<Longrightarrow> ensureStorage e w = (Inr (), w)"
  by (simp add: ensureStorage_def initialize_def)

lemma getJobStatus_initialized:
  assumes "truthy_str (jobsFile w)" and "loadJobs w = Inr jobs"
  shows "getJobStatus e w =
           (Inr (filter is_active (fst (check_jobs e jobs w))),
            (snd (check_jobs e jobs w))\<lparr>disk := (disk w)(the (jobsFile w) := Ledger (fst (check_jobs e jobs w)))\<rparr>)"
proof -
  obtain js' w2 where c: "check_jobs e jobs w = (js', w2)" by (cases "check_jobs e jobs w")
  from check_jobs_frame [OF c] assms(1)
  have "saveJobs js' w2 = Inr (w2\<lparr>disk := (disk w)(the (jobsFile w) := Ledger js')\<rparr>)"
    by (simp add: saveJobs_def)
  with assms c show ?thesis
    by (simp add: getJobStatus_def ensureStorage_initialized)
qed


lemma getJobStatus_jobsFile:
  assumes "truthy_str (jobsFile w)"
  shows "jobsFile (snd (getJobStatus e w)) = jobsFile w"
proof -
  from assms obtain jobs where load: "loadJobs w = Inr jobs"
    by (cases "disk w (the (jobsFile w))") (simp_all add: loadJobs_def)
  have "jobsFile (snd (check_jobs e jobs w)) = jobsFile w"
    using check_jobs_frame [of e jobs w "fst (check_jobs e jobs w)" "snd (check_jobs e jobs w)"]
    by simp
  then show ?thesis by (simp add: getJobStatus_initialized [OF assms load])
qed

lemma includes_str_char: "includes_str s [c] = (c \<in> set s)"
  by (induction s) (auto simp: startsWith_def)

lemma check_job_queued:
  assumes "truthy_str (slurmId j)" "status j \<noteq> JStr ''COMPLETED''" "status j \<noteq> JStr ''FAILED''"
      and "respond e (trace w) (Exec (squeue_command j)) = Inr out" "trim out \<noteq> []"
  shows "fst (check_job e j w) = j\<lparr>status := JStr (trim out)\<rparr>"
  using assms by (simp add: check_job_def executeCommand_def)

lemma check_job_left_queue:
  assumes "truthy_str (slurmId j)" "status j \<noteq> JStr ''COMPLETED''" "status j \<noteq> JStr ''FAILED''"
      and "respond e (trace w) (Exec (squeue_command j)) = Inr out" "trim out = []"
  shows "fst (check_job e j w) =
           (case status_from_file e j (w\<lparr>trace := trace w @ [Exec (squeue_command j)]\<rparr>) of
              (Inl err, w') \<Rightarrow> j\<lparr>status := JStr ''UNKNOWN''\<rparr>
            | (Inr j', w') \<Rightarrow> j')"
  using assms by (simp add: check_job_def executeCommand_def split: prod.splits sum.splits)

lemma status_from_file_absent:
  assumes "respond e (trace w) (Exec (cat_status_command j)) = Inr file" "trim file = []"
  shows "fst (status_from_file e j w) = Inr (j\<lparr>status := JStr ''UNKNOWN''\<rparr>)"
  using assms by (simp add: status_from_file_def executeCommand_def)

lemma status_from_file_object:
  assumes "respond e (trace w) (Exec (cat_status_command j)) = Inr file" "trim file \<noteq> []"
      and "JSON_parse e file = Some (JObj kvs)"
  shows "fst (status_from_file e j w) =
           (case map_of kvs ''status'' of
              None \<Rightarrow> Inr (j\<lparr>status := JStr ''COMPLETED''\<rparr>)
            | Some v \<Rightarrow>
                if \<not> truthy (Some v) then Inr (j\<lparr>status := JStr ''COMPLETED''\<rparr>)
                else (case js_includes v ''$'' of Inl err \<Rightarrow> Inl err
                      | Inr d \<Rightarrow> if d then Inr (j\<lparr>status := JStr ''COMPLETED''\<rparr>)
                         else (case js_includes v ''['' of Inl err \<Rightarrow> Inl err
                               | Inr b \<Rightarrow> if b then Inr (j\<lparr>status := JStr ''COMPLETED''\<rparr>)
                                  else Inr (j\<lparr>status := v, statusData := Some (JObj kvs)\<rparr>))))"
proof -
  from assms(2) have "file \<noteq> []" by (auto simp: trim_def)
  with assms show ?thesis
    by (auto simp: status_from_file_def executeCommand_def split: option.splits sum.splits)
qed

text \<open>
  C3. A job with a known scheduler id that is neither COMPLETED nor FAILED is looked up
  in the queue. A non-empty answer (after trimming) becomes its status. On an empty
  answer the metadata file is read: an absent or empty file gives UNKNOWN; a file that
  decodes to an object whose status is a non-empty string without \<^verbatim>\<open>$\<close> and \<^verbatim>\<open>[\<close> has
  that status adopted and the whole document attached as the snapshot; a file whose
  status is missing, empty or contains \<^verbatim>\<open>$\<close> or \<^verbatim>\<open>[\<close> gives COMPLETED.
\<close>

theorem check_job_status:
  assumes known: "truthy_str (slurmId j)"
      and notdone: "status j \<noteq> JStr ''COMPLETED''" "status j \<noteq> JStr ''FAILED''"
      and queue: "respond e (trace w) (Exec (squeue_command j)) = Inr out"
      and metafile: "respond e (trace w @ [Exec (squeue_command j)]) (Exec (cat_status_command j)) = Inr file"
  shows "(trim out \<noteq> [] \<longrightarrow> fst (check_job e j w) = j\<lparr>status := JStr (trim out)\<rparr>)
       \<and> (trim out = [] \<and> trim file = [] \<longrightarrow> fst (check_job e j w) = j\<lparr>status := JStr ''UNKNOWN''\<rparr>)
       \<and> (\<forall>kvs s. trim out = [] \<and> trim file \<noteq> [] \<and> JSON_parse e file = Some (JObj kvs)
              \<and> map_of kvs ''status'' = Some (JStr s)
              \<and> s \<noteq> [] \<and> CHR ''$'' \<notin> set s \<and> CHR ''['' \<notin> set s \<longrightarrow>
            fst (check_job e j w) = j\<lparr>status := JStr s, statusData := Some (JObj kvs)\<rparr>)
       \<and> (\<forall>kvs s. trim out = [] \<and> trim file \<noteq> [] \<and> JSON_parse e file = Some (JObj kvs)
              \<and> (map_of kvs ''status'' = None
                  \<or> map_of kvs ''status'' = Some (JStr s)
                     \<and> (s = [] \<or> CHR ''$'' \<in> set s \<or> CHR ''['' \<in> set s)) \<longrightarrow>
            fst (check_job e j w) = j\<lparr>status := JStr ''COMPLETED''\<rparr>)"
proof -
  let ?w1 = "w\<lparr>trace := trace w @ [Exec (squeue_command j)]\<rparr>"
  have file': "respond e (trace ?w1) (Exec (cat_status_command j)) = Inr file"
    using metafile by simp
  have a: "trim out \<noteq> [] \<Longrightarrow> fst (check_job e j w) = j\<lparr>status := JStr (trim out)\<rparr>"
    using check_job_queued [OF known notdone queue] .
  have left: "trim out = [] \<Longrightarrow> fst (check_job e j w) =
           (case status_from_file e j ?w1 of
              (Inl err, w') \<Rightarrow> j\<lparr>status := JStr ''UNKNOWN''\<rparr>
            | (Inr j', w') \<Rightarrow> j')"
    using check_job_left_queue [OF known notdone queue] .
  have b: "trim out = [] \<Longrightarrow> trim file = [] \<Longrightarrow> fst (check_job e j w) = j\<lparr>status := JStr ''UNKNOWN''\<rparr>"
    using left status_from_file_absent [OF file', of]
    by (cases "status_from_file e j ?w1") auto
  have c: "fst (check_job e j w) = j\<lparr>status := JStr s, statusData := Some (JObj kvs)\<rparr>"
    if "trim out = []" "trim file \<noteq> []" "JSON_parse e file = Some (JObj kvs)"
       "map_of kvs ''status'' = Some (JStr s)" "s \<noteq> []" "CHR ''$'' \<notin> set s" "CHR ''['' \<notin> set s"
    for kvs s
    using left [OF that(1)] status_from_file_object [OF file' that(2,3)] that(4-7)
    by (cases "status_from_file e j ?w1") (auto simp: includes_str_char)
  have d: "fst (check_job e j w) = j\<lparr>status := JStr ''COMPLETED''\<rparr>"
    if "trim out = []" "trim file \<noteq> []" "JSON_parse e file = Some (JObj kvs)"
       "map_of kvs ''status'' = None
          \<or> map_of kvs ''status'' = Some (JStr s) \<and> (s = [] \<or> CHR ''$'' \<in> set s \<or> CHR ''['' \<in> set s)"
    for kvs s
    using left [OF that(1)] status_from_file_object [OF file' that(2,3)] that(4)
    by (cases "status_from_file e j ?w1") (auto simp: includes_str_char)
  from a b c d show ?thesis by blast
qed


theorem check_job_status_witness:
  "fst (check_job (demo_remote (Inr (''RUNNING'' @ [CHR 0x0A])) (Inr []))
          demo_pending (demo_world (Ledger [demo_pending])))
     = demo_pending\<lparr>status := JStr ''RUNNING''\<rparr>
   \<and> fst (check_job (demo_remote (Inr []) (Inr demo_failed_file))
          demo_pending (demo_world (Ledger [demo_pending])))
     = demo_pending\<lparr>status := JStr ''FAILED'',
                      statusData := Some (JObj [(''status'', JStr ''FAILED'')])\<rparr>
   \<and> fst (check_job (demo_remote (Inr []) (Inr demo_crashed_file))
          demo_pending (demo_world (Ledger [demo_pending])))
     = demo_pending\<lparr>status := JStr ''COMPLETED''\<rparr>
   \<and> fst (check_job (demo_remote (Inr []) (Inr []))
          demo_pending (demo_world (Ledger [demo_pending])))
     = demo_pending\<lparr>status := JStr ''UNKNOWN''\<rparr>"
  (is "?A \<and> ?B \<and> ?C \<and> ?D")
proof -
  let ?w = "demo_world (Ledger [demo_pending])"
  have known: "truthy_str (slurmId demo_pending)"
    and notdone: "status demo_pending \<noteq> JStr ''COMPLETED''" "status demo_pending \<noteq> JStr ''FAILED''"
    by (simp_all add: demo_defs)
  have q: "respond (demo_remote (Inr out) m) (trace ?w) (Exec (squeue_command demo_pending)) = Inr out"
    for out m by (simp add: demo_defs)
  have f: "respond (demo_remote r (Inr doc)) (trace ?w @ [Exec (squeue_command demo_pending)])
             (Exec (cat_status_command demo_pending)) = Inr doc"
    for r doc by (simp add: demo_defs)
  have p: "JSON_parse (demo_remote r m) demo_failed_file = Some (JObj [(''status'', JStr ''FAILED'')])"
    "JSON_parse (demo_remote r m) demo_crashed_file = Some (JObj [(''status'', JStr ''$JOB_STATUS'')])"
    for r m by (simp_all add: demo_defs)
  have t: "trim (''RUNNING'' @ [CHR 0x0A]) = ''RUNNING''" "trim [] = []"
    "trim demo_failed_file \<noteq> []" "trim demo_crashed_file \<noteq> []"
    by (simp_all add: demo_defs)
  have "?A" using check_job_status [OF known notdone q f, of "''RUNNING'' @ [CHR 0x0A]" "[]"] t by simp
  moreover have "?B"
    using check_job_status [OF known notdone q f, of "[]" demo_failed_file,
      THEN conjunct2, THEN conjunct2, THEN conjunct1,
      rule_format, of "[(''status'', JStr ''FAILED'')]" "''FAILED''"] t p
    by simp
  moreover have "?C"
    using check_job_status [OF known notdone q f, of "[]" demo_crashed_file,
      THEN conjunct2, THEN conjunct2, THEN conjunct2,
      rule_format, of "[(''status'', JStr ''$JOB_STATUS'')]" "''$JOB_STATUS''"] t p
    by simp
  moreover have "?D"
    using check_job_status [OF known notdone q f, of "[]" "[]"] t by simp
  ultimately show ?thesis by simp
qed

lemma check_job_query_fails:
  assumes "truthy_str (slurmId j)" "is_active j" "query_fails e j w"
  shows "fst (check_job e j w) = j\<lparr>status := JStr ''UNKNOWN''\<rparr>"
proof (cases "respond e (trace w) (Exec (squeue_command j))")
  case (Inl err)
  with assms show ?thesis by (simp add: check_job_def executeCommand_def is_active_def)
next
  case (Inr out)
  with assms(3) have out: "trim out = []" by (simp add: query_fails_def)
  let ?w1 = "w\<lparr>trace := trace w @ [Exec (squeue_command j)]\<rparr>"
  have "fst (status_from_file e j ?w1) = Inl SyntaxError
      \<or> (\<exists>err. fst (status_from_file e j ?w1) = Inl err)"
    using assms(3) Inr out
    by (auto simp: query_fails_def status_from_file_def executeCommand_def trim_def
             split: sum.splits)
  then obtain err where "fst (status_from_file e j ?w1) = Inl err" by blast
  then show ?thesis
    using check_job_left_queue [of j e w out] assms(1,2) Inr out
    by (cases "status_from_file e j ?w1") (auto simp: is_active_def)
qed

lemma status_from_file_stateless:
  assumes "stateless e"
  shows "fst (status_from_file e j w) = fst (status_from_file e j v)"
proof -
  have r: "\<And>h c. respond e h c = respond e [] c" using assms by (simp add: stateless_def)
  show ?thesis
    unfolding status_from_file_def executeCommand_def
    by (subst (1 2) r) (simp split: sum.splits option.splits)
qed

lemma check_job_stateless:
  assumes "stateless e"
  shows "fst (check_job e j w) = fst (check_job e j v)"
proof (cases "truthy_str (slurmId j) \<and> status j \<noteq> JStr ''COMPLETED'' \<and> status j \<noteq> JStr ''FAILED''")
  case False
  then show ?thesis by (auto simp: check_job_def)
next
  case True
  have r: "\<And>h c. respond e h c = respond e [] c" using assms by (simp add: stateless_def)
  show ?thesis
  proof (cases "respond e [] (Exec (squeue_command j))")
    case (Inl err)
    then have "respond e (trace w) (Exec (squeue_command j)) = Inl err"
      and "respond e (trace v) (Exec (squeue_command j)) = Inl err"
      using r [of "trace w"] r [of "trace v"] by simp_all
    then show ?thesis using True by (simp add: check_job_def executeCommand_def)
  next
    case (Inr out)
    then have rw: "respond e (trace w) (Exec (squeue_command j)) = Inr out"
      and rv: "respond e (trace v) (Exec (squeue_command j)) = Inr out"
      using r [of "trace w"] r [of "trace v"] by simp_all
    show ?thesis
    proof (cases "trim out = []")
      case False
      with True rw rv show ?thesis by (simp add: check_job_queued)
    next
      case empty: True
      have "fst (status_from_file e j (w\<lparr>trace := trace w @ [Exec (squeue_command j)]\<rparr>))
          = fst (status_from_file e j (v\<lparr>trace := trace v @ [Exec (squeue_command j)]\<rparr>))"
        by (rule status_from_file_stateless [OF assms])
      then show ?thesis
        using True check_job_left_queue [of j e w out] check_job_left_queue [of j e v out] rw rv empty
        by (auto split: prod.splits sum.splits)
    qed
  qed
qed


text \<open>
  C4. With storage initialised a poll pass never raises, whatever the remote side answers
  or rejects. Every record of the ledger is processed by the same loop body and written
  back, so the saved ledger has one entry per record. A record whose status query fails
  is saved with status UNKNOWN and is otherwise unchanged. The entry of each record is
  what the loop body computes for that record alone, in a world that differs from the
  initial one in the log of calls only; with a remote side that does not depend on that
  log, the saved ledger is the loop body mapped over the records.
\<close>

theorem poll_isolated:
  assumes "truthy_str (jobsFile w)" and "loadJobs w = Inr jobs"
  shows "\<exists>polled w'.
           getJobStatus e w = (Inr (filter is_active polled), w')
         \<and> disk w' (the (jobsFile w')) = Ledger polled
         \<and> length polled = length jobs
         \<and> (\<forall>i < length jobs.
               polled ! i = fst (check_job e (jobs ! i) (snd (check_jobs e (take i jobs) w)))
             \<and> (truthy_str (slurmId (jobs ! i)) \<and> is_active (jobs ! i)
                  \<and> query_fails e (jobs ! i) (snd (check_jobs e (take i jobs) w))
                \<longrightarrow> polled ! i = (jobs ! i)\<lparr>status := JStr ''UNKNOWN''\<rparr>))
         \<and> (stateless e \<longrightarrow> polled = map (\<lambda>j. fst (check_job e j w)) jobs)"
proof -
  let ?polled = "fst (check_jobs e jobs w)"
  let ?w2 = "snd (check_jobs e jobs w)"
  let ?w' = "?w2\<lparr>disk := (disk w)(the (jobsFile w) := Ledger ?polled)\<rparr>"
  have run: "getJobStatus e w = (Inr (filter is_active ?polled), ?w')"
    by (rule getJobStatus_initialized [OF assms])
  have "jobsFile ?w2 = jobsFile w"
    using check_jobs_frame [of e jobs w ?polled ?w2] by simp
  then have saved: "disk ?w' (the (jobsFile ?w')) = Ledger ?polled" by simp
  have len: "length ?polled = length jobs" by (rule check_jobs_length)
  have each: "?polled ! i = fst (check_job e (jobs ! i) (snd (check_jobs e (take i jobs) w)))"
    if "i < length jobs" for i using that by (rule check_jobs_nth)
  have unknown: "?polled ! i = (jobs ! i)\<lparr>status := JStr ''UNKNOWN''\<rparr>"
    if "i < length jobs" "truthy_str (slurmId (jobs ! i))" "is_active (jobs ! i)"
       "query_fails e (jobs ! i) (snd (check_jobs e (take i jobs) w))" for i
    using each [OF that(1)] check_job_query_fails [OF that(2,3,4)] by simp
  have indep: "?polled = map (\<lambda>j. fst (check_job e j w)) jobs" if "stateless e"
  proof (rule nth_equalityI)
    show "length ?polled = length (map (\<lambda>j. fst (check_job e j w)) jobs)" using len by simp
  next
    fix i assume "i < length ?polled"
    then have i: "i < length jobs" using len by simp
    show "?polled ! i = map (\<lambda>j. fst (check_job e j w)) jobs ! i"
      using each [OF i] check_job_stateless [OF that, of "jobs ! i" _ w] i by simp
  qed
  from run saved len each unknown indep show ?thesis by blast
qed

theorem poll_isolated_witness:
  "truthy_str (jobsFile (demo_world (Ledger [demo_pending, demo_sibling])))
   \<and> loadJobs (demo_world (Ledger [demo_pending, demo_sibling])) = Inr [demo_pending, demo_sibling]
   \<and> query_fails
         (demo_env (demo_answers [(Exec (squeue_command demo_sibling), Inr (''RUNNING'' @ [CHR 0x0A]))]))
         demo_pending (demo_world (Ledger [demo_pending, demo_sibling]))
   \<and> fst (getJobStatus
         (demo_env (demo_answers [(Exec (squeue_command demo_sibling), Inr (''RUNNING'' @ [CHR 0x0A]))]))
         (demo_world (Ledger [demo_pending, demo_sibling])))
     = Inr [demo_pending\<lparr>status := JStr ''UNKNOWN''\<rparr>, demo_sibling\<lparr>status := JStr ''RUNNING''\<rparr>]
   \<and> disk (snd (getJobStatus
         (demo_env (demo_answers [(Exec (squeue_command demo_sibling), Inr (''RUNNING'' @ [CHR 0x0A]))]))
         (demo_world (Ledger [demo_pending, demo_sibling]))))
       ''/w/.vscode/.hpc-connector/jobs.json''
     = Ledger [demo_pending\<lparr>status := JStr ''UNKNOWN''\<rparr>, demo_sibling\<lparr>status := JStr ''RUNNING''\<rparr>]"
proof -
  let ?w = "demo_world (Ledger [demo_pending, demo_sibling])"
  let ?e = "demo_env (demo_answers [(Exec (squeue_command demo_sibling), Inr (''RUNNING'' @ [CHR 0x0A]))])"
  have init: "truthy_str (jobsFile ?w)" by (simp add: demo_world_def)
  have load: "loadJobs ?w = Inr [demo_pending, demo_sibling]"
    by (simp add: demo_world_def loadJobs_def)
  have fails: "query_fails ?e demo_pending ?w" by (simp add: demo_defs query_fails_def)
  have st: "stateless ?e" by (simp add: stateless_def demo_env_def)
  have one: "fst (check_job ?e demo_pending ?w) = demo_pending\<lparr>status := JStr ''UNKNOWN''\<rparr>"
    and two: "fst (check_job ?e demo_sibling ?w) = demo_sibling\<lparr>status := JStr ''RUNNING''\<rparr>"
    by (simp_all add: demo_defs run_defs)
  have act: "is_active (demo_pending\<lparr>status := JStr ''UNKNOWN''\<rparr>)"
    "is_active (demo_sibling\<lparr>status := JStr ''RUNNING''\<rparr>)"
    by (simp_all add: is_active_def)
  have path: "the (jobsFile w') = ''/w/.vscode/.hpc-connector/jobs.json''"
    if "getJobStatus ?e ?w = (r, w')" for r w'
    using that getJobStatus_jobsFile [OF init, of ?e] by (simp add: demo_world_def)
  from poll_isolated [OF init load, of ?e] obtain polled w' where
    run: "getJobStatus ?e ?w = (Inr (filter is_active polled), w')"
    and saved: "disk w' (the (jobsFile w')) = Ledger polled"
    and indep: "stateless ?e \<longrightarrow> polled = map (\<lambda>j. fst (check_job ?e j ?w)) [demo_pending, demo_sibling]"
    by blast
  from indep st one two
  have polled: "polled = [demo_pending\<lparr>status := JStr ''UNKNOWN''\<rparr>, demo_sibling\<lparr>status := JStr ''RUNNING''\<rparr>]"
    by simp
  show ?thesis using init load fails run saved path [OF run] polled act by simp
qed

text \<open>
  C9. A record whose status is COMPLETED or FAILED, or whose scheduler id is null, is
  written back by the poll pass exactly as it was loaded: every field is unchanged.
\<close>

theorem poll_frame:
  assumes "truthy_str (jobsFile w)" and "loadJobs w = Inr jobs" and "i < length jobs"
      and "slurmId (jobs ! i) = None \<or> status (jobs ! i) = JStr ''COMPLETED''
           \<or> status (jobs ! i) = JStr ''FAILED''"
  shows "\<exists>active w' saved.
           getJobStatus e w = (Inr active, w')
         \<and> disk w' (the (jobsFile w')) = Ledger saved
         \<and> length saved = length jobs
         \<and> saved ! i = jobs ! i"
proof -
  let ?polled = "fst (check_jobs e jobs w)"
  let ?w2 = "snd (check_jobs e jobs w)"
  let ?w' = "?w2\<lparr>disk := (disk w)(the (jobsFile w) := Ledger ?polled)\<rparr>"
  have run: "getJobStatus e w = (Inr (filter is_active ?polled), ?w')"
    by (rule getJobStatus_initialized [OF assms(1,2)])
  have "jobsFile ?w2 = jobsFile w"
    using check_jobs_frame [of e jobs w ?polled ?w2] by simp
  then have saved: "disk ?w' (the (jobsFile ?w')) = Ledger ?polled" by simp
  have same: "?polled ! i = jobs ! i"
    using check_jobs_nth [OF assms(3), of e w] check_job_skips [OF assms(4)] by simp
  from run saved same check_jobs_length [of e jobs w] show ?thesis by blast
qed

theorem poll_frame_witness:
  "truthy_str (jobsFile (demo_world (Ledger [demo_done, demo_unsubmitted, demo_pending])))
   \<and> loadJobs (demo_world (Ledger [demo_done, demo_unsubmitted, demo_pending]))
       = Inr [demo_done, demo_unsubmitted, demo_pending]
   \<and> status demo_done = JStr ''COMPLETED'' \<and> slurmId demo_unsubmitted = None
   \<and> (\<exists>saved. disk (snd (getJobStatus (demo_env (demo_answers []))
                  (demo_world (Ledger [demo_done, demo_unsubmitted, demo_pending]))))
                ''/w/.vscode/.hpc-connector/jobs.json'' = Ledger saved
         \<and> saved ! 0 = demo_done \<and> saved ! 1 = demo_unsubmitted
         \<and> saved ! 2 = demo_pending\<lparr>status := JStr ''UNKNOWN''\<rparr>)"
proof -
  let ?w = "demo_world (Ledger [demo_done, demo_unsubmitted, demo_pending])"
  let ?e = "demo_env (demo_answers [])"
  let ?jobs = "[demo_done, demo_unsubmitted, demo_pending]"
  have init: "truthy_str (jobsFile ?w)" by (simp add: demo_world_def)
  have load: "loadJobs ?w = Inr ?jobs" by (simp add: demo_world_def loadJobs_def)
  have fin: "status demo_done = JStr ''COMPLETED''" and unsub: "slurmId demo_unsubmitted = None"
    by (simp_all add: demo_defs)
  have direct: "disk (snd (getJobStatus ?e ?w)) ''/w/.vscode/.hpc-connector/jobs.json''
      = Ledger [demo_done, demo_unsubmitted, demo_pending\<lparr>status := JStr ''UNKNOWN''\<rparr>]"
    by (simp add: demo_defs run_defs)
  have path: "the (jobsFile w') = ''/w/.vscode/.hpc-connector/jobs.json''"
    if "getJobStatus ?e ?w = (r, w')" for r w'
    using that getJobStatus_jobsFile [OF init, of ?e] by (simp add: demo_world_def)
  from poll_frame [OF init load, of 0 ?e] fin obtain a0 w0 s0 where
    r0: "getJobStatus ?e ?w = (Inr a0, w0)" "disk w0 (the (jobsFile w0)) = Ledger s0" "s0 ! 0 = demo_done"
    by auto
  from poll_frame [OF init load, of 1 ?e] unsub obtain a1 w1 s1 where
    r1: "getJobStatus ?e ?w = (Inr a1, w1)" "disk w1 (the (jobsFile w1)) = Ledger s1" "s1 ! 1 = demo_unsubmitted"
    by auto
  from r0 r1 have same: "w1 = w0" "s1 = s0" by simp_all
  have "s0 = [demo_done, demo_unsubmitted, demo_pending\<lparr>status := JStr ''UNKNOWN''\<rparr>]"
    using direct r0 path [OF r0(1)] by simp
  then have "s0 ! 2 = demo_pending\<lparr>status := JStr ''UNKNOWN''\<rparr>" by simp
  then show ?thesis using init load fin unsub r0 r1 same path [OF r0(1)] by auto
qed

section \<open>Properties of connection acquisition\<close>

lemma connect_loop_exhausted:
  "\<not> attempt < maxRetries m \<Longrightarrow>
     connect_loop est cfg attempt lastError m = (Inl (enrichError cfg lastError), m\<lparr>isConnecting := False\<rparr>)"
  by (subst connect_loop.simps) simp

lemma connect_loop_step:
  "attempt < maxRetries m \<Longrightarrow>
     connect_loop est cfg attempt lastError m =
       (let m1 = m\<lparr>connectionAttempts := attempt + 1, events := events m @ [Handshake attempt]\<rparr>
         in case est attempt of
              Inr conn \<Rightarrow>
                (Inr conn, m1\<lparr>connection := Some conn, connectionAttempts := 0, isConnecting := False\<rparr>)
            | Inl err \<Rightarrow>
                if isAuthenticationError err
                then (Inl (enrichError cfg (Some err)), m1\<lparr>isConnecting := False\<rparr>)
                else connect_loop est cfg (attempt + 1) (Some err)
                       (if attempt < maxRetries m - 1
                        then m1\<lparr>events := events m1 @ [Sleep attempt]\<rparr> else m1))"
  by (subst connect_loop.simps) simp

lemma connect_loop_events:
  "\<exists>evs. events (snd (connect_loop est cfg attempt lastError m)) = events m @ evs
       \<and> (\<exists>n. handshakes evs = [attempt ..< attempt + n] \<and> attempt + n \<le> max attempt (maxRetries m))"
proof (induction est cfg attempt lastError m rule: connect_loop.induct)
  case (1 est cfg attempt lastError m)
  show ?case
  proof (cases "attempt < maxRetries m")
    case False
    then have "events (snd (connect_loop est cfg attempt lastError m)) = events m @ []
        \<and> handshakes [] = [attempt ..< attempt + 0] \<and> attempt + 0 \<le> max attempt (maxRetries m)"
      by (simp add: connect_loop_exhausted)
    then show ?thesis by blast
  next
    case True
    let ?m1 = "m\<lparr>connectionAttempts := attempt + 1, events := events m @ [Handshake attempt]\<rparr>"
    show ?thesis
    proof (cases "est attempt")
      case (Inr c)
      with True have "events (snd (connect_loop est cfg attempt lastError m)) = events m @ [Handshake attempt]
        \<and> handshakes [Handshake attempt] = [attempt ..< attempt + 1] \<and> attempt + 1 \<le> max attempt (maxRetries m)"
        by (subst connect_loop_step) simp_all
      then show ?thesis by blast
    next
      case (Inl err)
      show ?thesis
      proof (cases "isAuthenticationError err")
        case auth: True
        with True Inl have "events (snd (connect_loop est cfg attempt lastError m)) = events m @ [Handshake attempt]
          \<and> handshakes [Handshake attempt] = [attempt ..< attempt + 1] \<and> attempt + 1 \<le> max attempt (maxRetries m)"
          by (subst connect_loop_step) simp_all
        then show ?thesis by blast
      next
        case False
        let ?m2 = "if attempt < maxRetries m - 1 then ?m1\<lparr>events := events ?m1 @ [Sleep attempt]\<rparr> else ?m1"
        from "1.IH" [OF True refl Inl False] obtain evs n where
          ev: "events (snd (connect_loop est cfg (attempt + 1) (Some err) ?m2)) = events ?m2 @ evs"
          and hs: "handshakes evs = [attempt + 1 ..< attempt + 1 + n]"
          and bound: "attempt + 1 + n \<le> max (attempt + 1) (maxRetries ?m2)"
          by blast
        have step: "connect_loop est cfg attempt lastError m = connect_loop est cfg (attempt + 1) (Some err) ?m2"
          using True Inl False by (subst connect_loop_step) (simp_all add: Let_def)
        let ?pre = "if attempt < maxRetries m - 1 then [Handshake attempt, Sleep attempt] else [Handshake attempt]"
        have "events ?m2 = events m @ ?pre" by simp
        with ev step have e: "events (snd (connect_loop est cfg attempt lastError m)) = events m @ (?pre @ evs)"
          by simp
        have h: "handshakes (?pre @ evs) = [attempt ..< attempt + (n + 1)]"
          using hs by (simp add: upt_rec)
        have b: "attempt + (n + 1) \<le> max attempt (maxRetries m)"
          using bound True by (simp split: if_splits)
        from e h b show ?thesis by blast
      qed
    qed
  qed
qed


lemma connect_loop_auth:
  assumes "attempt \<le> k" "k < maxRetries m" "est k = Inl err" "isAuthenticationError err"
      and "\<forall>i. attempt \<le> i \<and> i < k \<longrightarrow> (\<exists>e. est i = Inl e \<and> \<not> isAuthenticationError e)"
  shows "fst (connect_loop est cfg attempt lastError m) = Inl (enrichError cfg (Some err))
       \<and> handshakes (drop (length (events m)) (events (snd (connect_loop est cfg attempt lastError m))))
           = [attempt ..< k + 1]"
  using assms
proof (induction est cfg attempt lastError m rule: connect_loop.induct)
  case (1 est cfg attempt lastError m)
  have lt: "attempt < maxRetries m" using "1.prems" by simp
  show ?case
  proof (cases "attempt = k")
    case True
    with "1.prems" lt show ?thesis by (subst (1 2) connect_loop_step) simp_all
  next
    case False
    with "1.prems" have less: "attempt < k" by simp
    with "1.prems" obtain e where e: "est attempt = Inl e" "\<not> isAuthenticationError e" by blast
    let ?m1 = "m\<lparr>connectionAttempts := attempt + 1, events := events m @ [Handshake attempt]\<rparr>"
    let ?m2 = "if attempt < maxRetries m - 1 then ?m1\<lparr>events := events ?m1 @ [Sleep attempt]\<rparr> else ?m1"
    have step: "connect_loop est cfg attempt lastError m = connect_loop est cfg (attempt + 1) (Some e) ?m2"
      using lt e by (subst connect_loop_step) (simp_all add: Let_def)
    have ih: "fst (connect_loop est cfg (attempt + 1) (Some e) ?m2) = Inl (enrichError cfg (Some err))
       \<and> handshakes (drop (length (events ?m2)) (events (snd (connect_loop est cfg (attempt + 1) (Some e) ?m2))))
           = [attempt + 1 ..< k + 1]"
      using "1.IH" [OF lt refl e(1) e(2)] less "1.prems" by simp
    obtain evs where evs: "events (snd (connect_loop est cfg (attempt + 1) (Some e) ?m2)) = events ?m2 @ evs"
      using connect_loop_events [of est cfg "attempt + 1" "Some e" ?m2] by blast
    have "handshakes (drop (length (events m)) (events ?m2 @ evs)) = attempt # handshakes evs"
      by simp
    moreover have "handshakes evs = [attempt + 1 ..< k + 1]" using ih evs by simp
    ultimately show ?thesis using ih step evs less by (simp add: upt_rec)
  qed
qed

lemma connect_loop_all_fail:
  assumes "attempt < maxRetries m"
      and "\<forall>i. attempt \<le> i \<and> i < maxRetries m \<longrightarrow> (\<exists>e. est i = Inl e \<and> \<not> isAuthenticationError e)"
      and "est (maxRetries m - 1) = Inl lastErr"
  shows "fst (connect_loop est cfg attempt lastError m) = Inl (enrichError cfg (Some lastErr))
       \<and> handshakes (drop (length (events m)) (events (snd (connect_loop est cfg attempt lastError m))))
           = [attempt ..< maxRetries m]"
  using assms
proof (induction est cfg attempt lastError m rule: connect_loop.induct)
  case (1 est cfg attempt lastError m)
  have lt: "attempt < maxRetries m" using "1.prems" by simp
  with "1.prems" obtain e where e: "est attempt = Inl e" "\<not> isAuthenticationError e" by blast
  let ?m1 = "m\<lparr>connectionAttempts := attempt + 1, events := events m @ [Handshake attempt]\<rparr>"
  let ?m2 = "if attempt < maxRetries m - 1 then ?m1\<lparr>events := events ?m1 @ [Sleep attempt]\<rparr> else ?m1"
  have step: "connect_loop est cfg attempt lastError m = connect_loop est cfg (attempt + 1) (Some e) ?m2"
    using lt e by (subst connect_loop_step) (simp_all add: Let_def)
  have mr: "maxRetries ?m2 = maxRetries m" by simp
  have pre: "handshakes (drop (length (events m)) (events ?m2)) = [attempt]" by simp
  show ?case
  proof (cases "attempt + 1 < maxRetries m")
    case True
    have ih: "fst (connect_loop est cfg (attempt + 1) (Some e) ?m2) = Inl (enrichError cfg (Some lastErr))
       \<and> handshakes (drop (length (events ?m2)) (events (snd (connect_loop est cfg (attempt + 1) (Some e) ?m2))))
           = [attempt + 1 ..< maxRetries m]"
      using "1.IH" [OF lt refl e(1) e(2)] True "1.prems" mr by simp
    obtain evs where evs: "events (snd (connect_loop est cfg (attempt + 1) (Some e) ?m2)) = events ?m2 @ evs"
      using connect_loop_events [of est cfg "attempt + 1" "Some e" ?m2] by blast
    have "handshakes (drop (length (events m)) (events ?m2 @ evs)) = attempt # handshakes evs"
      by simp
    moreover have "handshakes evs = [attempt + 1 ..< maxRetries m]" using ih evs by simp
    ultimately show ?thesis using ih step evs lt by (simp add: upt_rec)
  next
    case False
    with lt have last: "attempt = maxRetries m - 1" by simp
    with "1.prems" e have "e = lastErr" by simp
    moreover have "connect_loop est cfg (attempt + 1) (Some e) ?m2
        = (Inl (enrichError cfg (Some e)), ?m2\<lparr>isConnecting := False\<rparr>)"
      using False mr by (subst connect_loop_exhausted) simp_all
    ultimately show ?thesis using step pre last lt by (simp add: upt_rec)
  qed
qed


text \<open>
  C5. A manager built by the constructor (\<open>maxRetries = 3\<close>) makes at most three
  handshake attempts per acquisition. If attempt \<open>k\<close> is the first to fail with an
  authentication error, the attempts made are exactly \<open>0, \<dots>, k\<close> and the enriched form
  of that error is the result; in particular an authentication failure on the first
  attempt means one attempt. If all three attempts fail with other errors, three attempts
  are made and the enriched form of the last error is the result.
\<close>

theorem connectWithRetry_attempts:
  assumes "maxRetries m = 3"
  shows "length (attempts_made m (snd (connectWithRetry est cfg m))) \<le> 3
       \<and> (\<forall>k err. k < 3 \<and> est k = Inl err \<and> isAuthenticationError err
              \<and> (\<forall>i<k. \<exists>e. est i = Inl e \<and> \<not> isAuthenticationError e) \<longrightarrow>
            fst (connectWithRetry est cfg m) = Inl (enrichError cfg (Some err))
          \<and> attempts_made m (snd (connectWithRetry est cfg m)) = [0 ..< k + 1])
       \<and> (\<forall>err. est 0 = Inl err \<and> isAuthenticationError err \<longrightarrow>
            fst (connectWithRetry est cfg m) = Inl (enrichError cfg (Some err))
          \<and> attempts_made m (snd (connectWithRetry est cfg m)) = [0])
       \<and> (\<forall>err. (\<forall>i<3. \<exists>e. est i = Inl e \<and> \<not> isAuthenticationError e) \<and> est 2 = Inl err \<longrightarrow>
            fst (connectWithRetry est cfg m) = Inl (enrichError cfg (Some err))
          \<and> attempts_made m (snd (connectWithRetry est cfg m)) = [0, 1, 2])"
proof -
  let ?m0 = "m\<lparr>isConnecting := True\<rparr>"
  have mr: "maxRetries ?m0 = 3" and ev: "events ?m0 = events m" using assms by simp_all
  have bound: "length (attempts_made m (snd (connectWithRetry est cfg m))) \<le> 3"
  proof -
    obtain evs n where "events (snd (connect_loop est cfg 0 None ?m0)) = events ?m0 @ evs"
      and "handshakes evs = [0 ..< 0 + n]" and "0 + n \<le> max 0 (maxRetries ?m0)"
      using connect_loop_events [of est cfg 0 None ?m0] by blast
    then show ?thesis using mr by (simp add: attempts_made_def connectWithRetry_def)
  qed
  have auth: "fst (connectWithRetry est cfg m) = Inl (enrichError cfg (Some err))
          \<and> attempts_made m (snd (connectWithRetry est cfg m)) = [0 ..< k + 1]"
    if "k < 3" "est k = Inl err" "isAuthenticationError err"
       "\<forall>i<k. \<exists>e. est i = Inl e \<and> \<not> isAuthenticationError e" for k err
    using connect_loop_auth [of 0 k ?m0 est err cfg None] that mr
    by (simp add: attempts_made_def connectWithRetry_def)
  have first: "fst (connectWithRetry est cfg m) = Inl (enrichError cfg (Some err))
          \<and> attempts_made m (snd (connectWithRetry est cfg m)) = [0]"
    if "est 0 = Inl err" "isAuthenticationError err" for err
    using auth [of 0 err] that by simp
  have exhausted: "fst (connectWithRetry est cfg m) = Inl (enrichError cfg (Some err))
          \<and> attempts_made m (snd (connectWithRetry est cfg m)) = [0, 1, 2]"
    if "\<forall>i<3. \<exists>e. est i = Inl e \<and> \<not> isAuthenticationError e" "est 2 = Inl err" for err
  proof -
    have "[0 ..< 3] = [0, 1, 2::nat]" by (simp add: upt_rec)
    then show ?thesis
      using connect_loop_all_fail [of 0 ?m0 est err cfg None] that mr
      by (simp add: attempts_made_def connectWithRetry_def)
  qed
  from bound auth first exhausted show ?thesis by blast
qed

theorem connectWithRetry_attempts_witness:
  "maxRetries new_ConnectionManager = 3
   \<and> isAuthenticationError ''All configured authentication methods failed''
   \<and> fst (connectWithRetry (\<lambda>k. Inl ''All configured authentication methods failed'')
           demo_settings new_ConnectionManager)
       = Inl \<lparr>enrichedMessage = ''All configured authentication methods failed'',
              originalError = Some ''All configured authentication methods failed''\<rparr>
   \<and> attempts_made new_ConnectionManager
         (snd (connectWithRetry (\<lambda>k. Inl ''All configured authentication methods failed'')
                 demo_settings new_ConnectionManager)) = [0]
   \<and> \<not> isAuthenticationError ''read ECONNRESET''
   \<and> fst (connectWithRetry (\<lambda>k. Inl ''read ECONNRESET'') demo_settings new_ConnectionManager)
       = Inl \<lparr>enrichedMessage = ''read ECONNRESET'', originalError = Some ''read ECONNRESET''\<rparr>
   \<and> attempts_made new_ConnectionManager
         (snd (connectWithRetry (\<lambda>k. Inl ''read ECONNRESET'') demo_settings new_ConnectionManager))
       = [0, 1, 2]"
proof -
  have three: "maxRetries new_ConnectionManager = 3" by (simp add: new_ConnectionManager_def)
  have auth: "isAuthenticationError ''All configured authentication methods failed''"
    by (simp add: isAuthenticationError_def startsWith_def)
  have other: "\<not> isAuthenticationError ''read ECONNRESET''"
    by (simp add: isAuthenticationError_def startsWith_def)
  have e1: "enrichError demo_settings (Some ''All configured authentication methods failed'')
      = \<lparr>enrichedMessage = ''All configured authentication methods failed'',
          originalError = Some ''All configured authentication methods failed''\<rparr>"
    by (simp add: enrichError_def startsWith_def)
  have e2: "enrichError demo_settings (Some ''read ECONNRESET'')
      = \<lparr>enrichedMessage = ''read ECONNRESET'', originalError = Some ''read ECONNRESET''\<rparr>"
    by (simp add: enrichError_def startsWith_def)
  note t1 = connectWithRetry_attempts [OF three,
      of "\<lambda>k. Inl ''All configured authentication methods failed''" demo_settings,
      THEN conjunct2, THEN conjunct2, THEN conjunct1, rule_format,
      of "''All configured authentication methods failed''"]
  note t2 = connectWithRetry_attempts [OF three, of "\<lambda>k. Inl ''read ECONNRESET''" demo_settings,
      THEN conjunct2, THEN conjunct2, THEN conjunct2, rule_format, of "''read ECONNRESET''"]
  from t1 auth e1 t2 other e2 three show ?thesis by simp
qed

section \<open>Properties of script generation\<close>

lemma split_on_nonempty: "split_on sep s \<noteq> []"
  by (induction s) (auto split: list.splits)

lemma split_on_single: "sep \<notin> set s \<Longrightarrow> split_on sep s = [s]"
  by (induction s) (auto split: list.splits)

lemma split_on_sep: "split_on sep (sep # rest) = [] # split_on sep rest"
  using split_on_nonempty [of sep rest] by (simp split: list.splits)

lemma split_on_append:
  "sep \<notin> set x \<Longrightarrow> split_on sep (x @ sep # rest) = x # split_on sep rest"
proof (induction x)
  case Nil
  show ?case by (simp add: split_on_sep del: split_on.simps)
next
  case (Cons a x)
  then show ?case by (auto split: list.splits)
qed

lemma split_on_join:
  "xs \<noteq> [] \<Longrightarrow> \<forall>x \<in> set xs. sep \<notin> set x \<Longrightarrow> split_on sep (join [sep] xs) = xs"
proof (induction xs rule: induct_list012)
  case 1
  then show ?case by simp
next
  case (2 x)
  then show ?case by (simp add: split_on_single)
next
  case (3 x y ys)
  then show ?case by (simp add: split_on_append)
qed

lemma digit_char_digit: "d < 10 \<Longrightarrow> digit_char d \<in> set ''0123456789''"
proof -
  assume "d < 10"
  then have "d \<in> {0, 1, 2, 3, 4, 5, 6, 7, 8, 9}" by auto
  then show ?thesis by (auto simp: digit_char_def)
qed

lemma show_nat_digits: "set (show_nat n) \<subseteq> set ''0123456789''"
proof (induction n rule: show_nat.induct)
  case (1 n)
  show ?case
  proof (cases "n < 10")
    case True
    then show ?thesis using digit_char_digit [of n] by (subst show_nat.simps) simp
  next
    case False
    then have "set (show_nat n) = set (show_nat (n div 10)) \<union> {digit_char (n mod 10)}"
      by (subst show_nat.simps) simp
    moreover have "digit_char (n mod 10) \<in> set ''0123456789''" by (rule digit_char_digit) simp
    ultimately show ?thesis using "1.IH" [OF False] by blast
  qed
qed

lemma show_int_single_line: "single_line (show_int i)"
  using show_nat_digits [of "nat i"] show_nat_digits [of "nat (- i)"]
  by (auto simp: single_line_def show_int_def)



lemma buildHeader_lines:
  assumes "single_line (cfg_name c)" "single_line jobDir" "single_line (cfg_partition c)"
      and "single_line (cfg_memory c)" "single_line (cfg_time c)"
  shows "script_lines (buildHeader c jobDir) = header_lines c jobDir"
proof -
  have nl: "CHR 0x0A \<notin> set (show_int i)" for i
    using show_int_single_line [of i] by (simp add: single_line_def)
  show ?thesis
    unfolding script_lines_def buildHeader_def
    apply (rule split_on_join)
    using assms nl apply (simp_all add: header_lines_def single_line_def)
    done
qed

lemma header_gres:
  assumes "single_line (cfg_name c)" "single_line jobDir" "single_line (cfg_partition c)"
      and "single_line (cfg_memory c)" "single_line (cfg_time c)"
  shows "gres_directives (buildHeader c jobDir) =
           (if cfg_gpus c > 0 then [''#SBATCH --gres=gpu:'' @ show_int (cfg_gpus c)] else [])"
  unfolding gres_directives_def buildHeader_lines [OF assms]
  by (simp add: header_lines_def startsWith_def)

lemma extname_c_not_cmake:
  "extname f = ''.c'' \<or> extname f = ''.cpp'' \<Longrightarrow> basename f \<noteq> ''CMakeLists.txt''"
  by (auto simp: extname_def Let_def)

lemma buildScript_cpp:
  assumes "extname (cfg_fileName c) = ''.c'' \<or> extname (cfg_fileName c) = ''.cpp''"
      and "cfg_optimizationLevel c \<in> set [Some ''-O0'', Some ''-O1'', Some ''-O2'', Some ''-O3'']"
  shows "buildScript c info =
           Inr (join [CHR 0x0A, CHR 0x0A]
                  [buildHeader c (jobsDir info @ ''/'' @ cfg_id c),
                   buildEnvironment ''# No Python environment needed for C/C++'' (jobsDir info @ ''/'' @ cfg_id c),
                   buildExecution c (jobsDir info @ ''/'' @ cfg_id c)
                     (buildExecutionCommand CppExecutor c (jobsDir info @ ''/'' @ cfg_id c) (cfg_fileName c)),
                   buildStatusCapture c (jobsDir info @ ''/'' @ cfg_id c),
                   buildFooter])"
proof -
  have "createExecutor (cfg_fileName c) = Inr CppExecutor"
    using assms(1) extname_c_not_cmake [OF assms(1)] by (auto simp: createExecutor_def)
  moreover have "validate CppExecutor c = None" using assms(2) by simp
  ultimately show ?thesis by (simp add: buildScript_def Let_def)
qed

lemma buildScript_header:
  assumes "buildScript c info = Inr script"
  shows "\<exists>rest. script = buildHeader c (jobsDir info @ ''/'' @ cfg_id c) @ [CHR 0x0A, CHR 0x0A] @ rest"
  using assms
  by (auto simp: buildScript_def Let_def split: sum.splits option.splits)

lemma split_on_at_sep:
  "split_on sep (a @ sep # b) = split_on sep a @ split_on sep b"
proof (induction a)
  case Nil
  show ?case by (simp add: split_on_sep del: split_on.simps(2))
next
  case (Cons c a)
  obtain x xs where x: "split_on sep a = x # xs"
    using split_on_nonempty [of sep a] by (cases "split_on sep a") auto
  with Cons show ?case by simp
qed

lemma gres_at_newline:
  "gres_directives (a @ CHR 0x0A # b) = gres_directives a @ gres_directives b"
  by (simp add: gres_directives_def script_lines_def split_on_at_sep)

lemma gres_leading_newline: "gres_directives (CHR 0x0A # b) = gres_directives b"
  using gres_at_newline [of "[]" b] by (simp add: gres_directives_def script_lines_def startsWith_def)

lemma gres_join:
  "xs \<noteq> [] \<Longrightarrow> gres_directives (join [CHR 0x0A] xs) = concat (map gres_directives xs)"
proof (induction xs rule: induct_list012)
  case 1
  then show ?case by simp
next
  case (2 x)
  then show ?case by simp
next
  case (3 x y ys)
  then show ?case by (simp add: gres_at_newline)
qed

lemma gres_single_line:
  "single_line s \<Longrightarrow> gres_directives s = (if startsWith s ''#SBATCH --gres'' then [s] else [])"
  by (simp add: gres_directives_def script_lines_def single_line_def split_on_single)

lemma gres_sections:
  "gres_directives (join [CHR 0x0A, CHR 0x0A] [a, b, c, d, e])
     = gres_directives a @ gres_directives b @ gres_directives c @ gres_directives d @ gres_directives e"
  by (simp add: gres_at_newline gres_leading_newline)

lemma gres_footer: "gres_directives buildFooter = []"
  unfolding buildFooter_def
  by (subst gres_join) (simp_all add: footer_lines_def gres_single_line single_line_def startsWith_def)

lemma join_single_line:
  "list_all single_line xs \<Longrightarrow> single_line sep \<Longrightarrow> single_line (join sep xs)"
  by (induction xs rule: induct_list012) (auto simp: single_line_def)

lemma gres_environment:
  assumes "single_line envSetup" "\<not> startsWith envSetup ''#SBATCH --gres''" "single_line jobDir"
  shows "gres_directives (buildEnvironment envSetup jobDir) = []"
  unfolding buildEnvironment_def
  using assms
  by (subst gres_join) (simp_all add: environment_lines_def gres_single_line single_line_def startsWith_def)

lemma gres_status:
  assumes "plain_job c info" "single_line jobDir"
  shows "gres_directives (buildStatusCapture c jobDir) = []"
proof -
  have nl: "CHR 0x0A \<notin> set (show_int i)" for i
    using show_int_single_line [of i] by (simp add: single_line_def)
  have a: "list_all single_line (map basename (cfg_inputFiles c))"
    using assms(1) by (simp add: plain_job_def list_all_iff)
  have b: "list_all single_line (map (\<lambda>f. [CHR 0x22] @ basename f @ [CHR 0x22]) (cfg_inputFiles c))"
    using assms(1) by (simp add: plain_job_def list_all_iff single_line_def)
  have j1: "CHR 0x0A \<notin> set (join '' '' (map basename (cfg_inputFiles c)))"
    using join_single_line [OF a, of "'' ''"] by (simp add: single_line_def)
  have j2: "CHR 0x0A \<notin> set (join '', '' (map (\<lambda>f. [CHR 0x22] @ basename f @ [CHR 0x22]) (cfg_inputFiles c)))"
    using join_single_line [OF b, of "'', ''"] by (simp add: single_line_def)
  have env: "CHR 0x0A \<notin> set (or_default (cfg_pythonEnv c) ''N/A'')"
    using assms(1) by (cases "cfg_pythonEnv c") (auto simp: plain_job_def single_line_def)
  show ?thesis
    unfolding buildStatusCapture_def
    apply (subst gres_join)
    using assms nl j1 j2 env
    apply (simp_all add: status_lines_def Let_def gres_single_line single_line_def startsWith_def plain_job_def)
    done
qed



lemma gres_execution:
  assumes "single_line (cfg_fileName c)"
      and "gres_directives (CHR ''('' # cmd @ '') > execution_log.txt 2> execution_errors.txt'') = []"
  shows "gres_directives (buildExecution c jobDir cmd) = []"
  unfolding buildExecution_def
  using assms
  by (subst gres_join) (simp_all add: execution_lines_def gres_single_line single_line_def startsWith_def)

lemma replace_ext_out_single_line: "single_line f \<Longrightarrow> single_line (replace_ext_out f)"
  by (auto simp: replace_ext_out_def single_line_def Let_def dest: in_set_takeD)

lemma or_default_single_line:
  "single_line_opt v \<Longrightarrow> single_line d \<Longrightarrow> single_line (or_default v d)"
  by (cases v) auto

lemma gres_wrapped_python:
  assumes "single_line fname"
  shows "gres_directives (CHR ''('' # buildExecutionCommand PythonExecutor c jobDir fname
           @ '') > execution_log.txt 2> execution_errors.txt'') = []"
  using assms by (simp add: gres_single_line single_line_def startsWith_def)

lemma gres_wrapped_cpp:
  assumes "single_line fname" "single_line_opt (cfg_extraFlags c)" "single_line_opt (cfg_includeFlags c)"
      and "cfg_optimizationLevel c \<in> set [Some ''-O0'', Some ''-O1'', Some ''-O2'', Some ''-O3'']"
  shows "gres_directives (CHR ''('' # buildExecutionCommand CppExecutor c jobDir fname
           @ '') > execution_log.txt 2> execution_errors.txt'') = []"
proof -
  let ?compile = "(if extname fname = ''.c'' then ''gcc'' else ''g++'') @ '' '' @ fname @ '' -o ''
      @ replace_ext_out fname @ '' '' @ or_default (cfg_optimizationLevel c) ''-O3''
      @ '' -march=native '' @ or_default (cfg_extraFlags c) [] @ '' '' @ or_default (cfg_includeFlags c) []"
  let ?run = "''./'' @ replace_ext_out fname @ '') > execution_log.txt 2> execution_errors.txt''"
  have lvl: "single_line (or_default (cfg_optimizationLevel c) ''-O3'')"
    using assms(4) by (auto simp: single_line_def)
  have fl: "single_line (or_default (cfg_extraFlags c) [])" "single_line (or_default (cfg_includeFlags c) [])"
    using or_default_single_line [OF assms(2), of "[]"] or_default_single_line [OF assms(3), of "[]"]
    by (simp_all add: single_line_def)
  have exe: "single_line (replace_ext_out fname)" using assms(1) by (rule replace_ext_out_single_line)
  have one: "single_line (CHR ''('' # ?compile)"
    using assms(1) lvl fl exe by (simp add: single_line_def)
  have two: "single_line ?run" using exe by (simp add: single_line_def)
  have "CHR ''('' # buildExecutionCommand CppExecutor c jobDir fname
           @ '') > execution_log.txt 2> execution_errors.txt''
        = (CHR ''('' # ?compile) @ CHR 0x0A # ?run"
    by (simp add: Let_def)
  then show ?thesis
    using gres_single_line [OF one] gres_single_line [OF two]
    by (simp only: gres_at_newline) (simp add: startsWith_def)
qed


lemma supported_executor:
  assumes "extname fname \<in> set supportedExtensions"
  shows "createExecutor fname =
           Inr (if extname fname = ''.py'' \<or> extname fname = ''.ipynb'' then PythonExecutor else CppExecutor)"
proof -
  have "basename fname \<noteq> ''CMakeLists.txt''"
    using assms by (auto simp: supportedExtensions_def extname_def Let_def)
  then show ?thesis using assms by (auto simp: createExecutor_def supportedExtensions_def)
qed

lemma buildScript_Inr:
  assumes "buildScript c info = Inr script" "createExecutor (cfg_fileName c) = Inr ex"
  shows "validate ex c = None"
    and "script = join [CHR 0x0A, CHR 0x0A]
                [buildHeader c (jobsDir info @ ''/'' @ cfg_id c),
                 buildEnvironment (getEnvironmentSetup ex c info) (jobsDir info @ ''/'' @ cfg_id c),
                 buildExecution c (jobsDir info @ ''/'' @ cfg_id c)
                   (buildExecutionCommand ex c (jobsDir info @ ''/'' @ cfg_id c) (cfg_fileName c)),
                 buildStatusCapture c (jobsDir info @ ''/'' @ cfg_id c),
                 buildFooter]"
proof -
  show v: "validate ex c = None"
    using assms by (cases "validate ex c") (simp_all add: buildScript_def Let_def del: join.simps)
  show "script = join [CHR 0x0A, CHR 0x0A]
                [buildHeader c (jobsDir info @ ''/'' @ cfg_id c),
                 buildEnvironment (getEnvironmentSetup ex c info) (jobsDir info @ ''/'' @ cfg_id c),
                 buildExecution c (jobsDir info @ ''/'' @ cfg_id c)
                   (buildExecutionCommand ex c (jobsDir info @ ''/'' @ cfg_id c) (cfg_fileName c)),
                 buildStatusCapture c (jobsDir info @ ''/'' @ cfg_id c),
                 buildFooter]"
    using assms v by (simp add: buildScript_def Let_def del: join.simps)
qed

lemma gres_rest_supported:
  assumes "buildScript c info = Inr script"
      and "extname (cfg_fileName c) \<in> set supportedExtensions"
      and "plain_job c info"
  shows "gres_directives script = gres_directives (buildHeader c (jobsDir info @ ''/'' @ cfg_id c))"
proof -
  let ?dir = "jobsDir info @ ''/'' @ cfg_id c"
  have dir: "single_line ?dir" using assms(3) by (simp add: plain_job_def single_line_def)
  have fname: "single_line (cfg_fileName c)" using assms(3) by (simp add: plain_job_def)
  have status: "gres_directives (buildStatusCapture c ?dir) = []"
    by (rule gres_status [OF assms(3) dir])
  show ?thesis
  proof (cases "extname (cfg_fileName c) = ''.py'' \<or> extname (cfg_fileName c) = ''.ipynb''")
    case True
    then have ex: "createExecutor (cfg_fileName c) = Inr PythonExecutor"
      using supported_executor [OF assms(2)] by simp
    note b = buildScript_Inr [OF assms(1) ex]
    have "single_line (getEnvironmentSetup PythonExecutor c info)"
      using assms(3) by (cases "cfg_pythonEnv c") (auto simp: plain_job_def single_line_def)
    moreover have "\<not> startsWith (getEnvironmentSetup PythonExecutor c info) ''#SBATCH --gres''"
      by (simp add: startsWith_def)
    ultimately have env: "gres_directives (buildEnvironment (getEnvironmentSetup PythonExecutor c info) ?dir) = []"
      using dir by (rule gres_environment)
    have exec: "gres_directives (buildExecution c ?dir
                  (buildExecutionCommand PythonExecutor c ?dir (cfg_fileName c))) = []"
      by (rule gres_execution [OF fname gres_wrapped_python [OF fname]])
    show ?thesis unfolding b(2) gres_sections using env exec status gres_footer by simp
  next
    case False
    then have ex: "createExecutor (cfg_fileName c) = Inr CppExecutor"
      using supported_executor [OF assms(2)] by simp
    note b = buildScript_Inr [OF assms(1) ex]
    from b(1) have lvl: "cfg_optimizationLevel c \<in> set [Some ''-O0'', Some ''-O1'', Some ''-O2'', Some ''-O3'']"
      by (simp split: if_splits)
    have fl: "single_line_opt (cfg_extraFlags c)" "single_line_opt (cfg_includeFlags c)"
      using assms(3) by (simp_all add: plain_job_def)
    have "single_line (getEnvironmentSetup CppExecutor c info)" by (simp add: single_line_def)
    moreover have "\<not> startsWith (getEnvironmentSetup CppExecutor c info) ''#SBATCH --gres''"
      by (simp add: startsWith_def)
    ultimately have env: "gres_directives (buildEnvironment (getEnvironmentSetup CppExecutor c info) ?dir) = []"
      using dir by (rule gres_environment)
    have exec: "gres_directives (buildExecution c ?dir
                  (buildExecutionCommand CppExecutor c ?dir (cfg_fileName c))) = []"
      by (rule gres_execution [OF fname gres_wrapped_cpp [OF fname fl lvl]])
    show ?thesis unfolding b(2) gres_sections using env exec status gres_footer by simp
  qed
qed

text \<open>
  C6. The generated script begins with the header. For a configuration whose text fields
  are single lines, the header holds no GPU directive when the GPU count is 0 (or less),
  and exactly one when it is above 0, \<^verbatim>\<open>#SBATCH --gres=gpu:N\<close> with \<open>N\<close> the requested
  count; for the file kinds the submit command accepts, the same holds of the lines of
  the whole script.
\<close>

theorem gpu_directive:
  assumes "buildScript c info = Inr script" and "plain_job c info"
  shows "(\<exists>rest. script = buildHeader c (jobsDir info @ ''/'' @ cfg_id c) @ [CHR 0x0A, CHR 0x0A] @ rest)
       \<and> gres_directives (buildHeader c (jobsDir info @ ''/'' @ cfg_id c))
           = (if cfg_gpus c > 0 then [''#SBATCH --gres=gpu:'' @ show_int (cfg_gpus c)] else [])
       \<and> (extname (cfg_fileName c) \<in> set supportedExtensions \<longrightarrow>
            gres_directives script
              = (if cfg_gpus c > 0 then [''#SBATCH --gres=gpu:'' @ show_int (cfg_gpus c)] else []))"
proof -
  have dir: "single_line (jobsDir info @ ''/'' @ cfg_id c)"
    using assms(2) by (simp add: plain_job_def single_line_def)
  have hdr: "gres_directives (buildHeader c (jobsDir info @ ''/'' @ cfg_id c))
           = (if cfg_gpus c > 0 then [''#SBATCH --gres=gpu:'' @ show_int (cfg_gpus c)] else [])"
    using assms(2) by (intro header_gres dir) (simp_all add: plain_job_def)
  show ?thesis
    using buildScript_header [OF assms(1)] hdr gres_rest_supported [OF assms(1) _ assms(2)]
    by simp
qed

theorem gpu_directive_witness:
  "plain_job demo_config demo_info \<and> plain_job demo_gpu_config demo_info
   \<and> extname (cfg_fileName demo_config) \<in> set supportedExtensions
   \<and> extname (cfg_fileName demo_gpu_config) \<in> set supportedExtensions
   \<and> cfg_gpus demo_config = 0
   \<and> (\<exists>script. buildScript demo_config demo_info = Inr script \<and> gres_directives script = [])
   \<and> cfg_gpus demo_gpu_config = 2
   \<and> (\<exists>script. buildScript demo_gpu_config demo_info = Inr script
          \<and> gres_directives script = [''#SBATCH --gres=gpu:2''])"
proof -
  have two: "show_int 2 = ''2''" by (simp add: show_int_def show_nat.simps digit_char_def)
  have p0: "plain_job demo_config demo_info"
    by (simp add: plain_job_def single_line_def demo_config_def demo_info_def)
  have p2: "plain_job demo_gpu_config demo_info"
    by (simp add: plain_job_def single_line_def demo_config_def demo_gpu_config_def demo_info_def)
  have x0: "extname (cfg_fileName demo_config) \<in> set supportedExtensions"
    by (simp add: supportedExtensions_def extname_def basename_def demo_config_def)
  have x2: "extname (cfg_fileName demo_gpu_config) \<in> set supportedExtensions"
    by (simp add: supportedExtensions_def extname_def basename_def demo_gpu_config_def)
  obtain s0 where b0: "buildScript demo_config demo_info = Inr s0"
    by (simp add: buildScript_def createExecutor_def extname_def basename_def demo_config_def Let_def)
  obtain s2 where b2: "buildScript demo_gpu_config demo_info = Inr s2"
    by (simp add: buildScript_def createExecutor_def extname_def basename_def demo_config_def
          demo_gpu_config_def Let_def)
  have g0: "cfg_gpus demo_config = 0" by (simp add: demo_config_def)
  have g2: "cfg_gpus demo_gpu_config = 2" by (simp add: demo_gpu_config_def)
  from gpu_directive [OF b0 p0] x0 g0 have "gres_directives s0 = []" by simp
  moreover from gpu_directive [OF b2 p2] x2 g2 two
  have "gres_directives s2 = [''#SBATCH --gres=gpu:2'']" by simp
  ultimately show ?thesis using b0 b2 g0 g2 p0 p2 x0 x2 by simp
qed

lemma includes_str_middle: "includes_str (pre @ p @ post) p"
proof (induction pre)
  case Nil
  show ?case
  proof (cases "p @ post")
    case Nil
    then show ?thesis by simp
  next
    case (Cons a list)
    have "startsWith (p @ post) p" by (simp add: startsWith_def)
    with Cons show ?thesis by simp
  qed
next
  case (Cons a pre)
  then show ?case by simp
qed

text \<open>
  C7. For a \<^verbatim>\<open>.c\<close> or \<^verbatim>\<open>.cpp\<close> job with 4 CPUs, no GPU, memory 16G, time limit 02:00:00
  and a valid optimisation level, script generation succeeds; the header holds the lines
  \<^verbatim>\<open>#SBATCH --cpus-per-task=4\<close>, \<^verbatim>\<open>#SBATCH --mem=16G\<close> and \<^verbatim>\<open>#SBATCH --time=02:00:00\<close>
  and no GPU directive; and the execution section contains the compile command, a
  newline and the run command, in parentheses, with standard output redirected to
  \<^verbatim>\<open>execution_log.txt\<close> and standard error to \<^verbatim>\<open>execution_errors.txt\<close>.
\<close>

theorem compiled_native_script:
  assumes "extname (cfg_fileName c) = ''.c'' \<or> extname (cfg_fileName c) = ''.cpp''"
      and "cfg_cpus c = 4" "cfg_gpus c = 0" "cfg_memory c = ''16G''" "cfg_time c = ''02:00:00''"
      and "cfg_optimizationLevel c = Some level" "level \<in> set [''-O0'', ''-O1'', ''-O2'', ''-O3'']"
      and "single_line (cfg_name c)" "single_line (jobsDir info)" "single_line (cfg_id c)"
          "single_line (cfg_partition c)"
  shows "\<exists>header environment execution rest.
           buildScript c info =
             Inr (header @ [CHR 0x0A, CHR 0x0A] @ environment @ [CHR 0x0A, CHR 0x0A] @ execution
                    @ [CHR 0x0A, CHR 0x0A] @ rest)
         \<and> header = buildHeader c (jobsDir info @ ''/'' @ cfg_id c)
         \<and> ''#SBATCH --cpus-per-task=4'' \<in> set (script_lines header)
         \<and> ''#SBATCH --mem=16G'' \<in> set (script_lines header)
         \<and> ''#SBATCH --time=02:00:00'' \<in> set (script_lines header)
         \<and> gres_directives header = []
         \<and> execution = buildExecution c (jobsDir info @ ''/'' @ cfg_id c)
               (buildExecutionCommand CppExecutor c (jobsDir info @ ''/'' @ cfg_id c) (cfg_fileName c))
         \<and> includes_str execution
               (''('' @ (if extname (cfg_fileName c) = ''.c'' then ''gcc'' else ''g++'') @ '' ''
                  @ cfg_fileName c @ '' -o '' @ replace_ext_out (cfg_fileName c) @ '' '' @ level
                  @ '' -march=native '' @ or_default (cfg_extraFlags c) [] @ '' ''
                  @ or_default (cfg_includeFlags c) [] @ [CHR 0x0A]
                  @ ''./'' @ replace_ext_out (cfg_fileName c)
                  @ '') > execution_log.txt 2> execution_errors.txt'')"
proof -
  let ?dir = "jobsDir info @ ''/'' @ cfg_id c"
  let ?cmd = "buildExecutionCommand CppExecutor c ?dir (cfg_fileName c)"
  have dir: "single_line ?dir" using assms(9,10) by (simp add: single_line_def)
  have mem: "single_line (cfg_memory c)" and tm: "single_line (cfg_time c)"
    using assms(4,5) by (simp_all add: single_line_def)
  have opt: "cfg_optimizationLevel c \<in> set [Some ''-O0'', Some ''-O1'', Some ''-O2'', Some ''-O3'']"
    using assms(6,7) by auto
  have four: "show_int 4 = ''4''" by (simp add: show_int_def show_nat.simps digit_char_def)
  have lines: "''#SBATCH --cpus-per-task=4'' \<in> set (script_lines (buildHeader c ?dir))"
    "''#SBATCH --mem=16G'' \<in> set (script_lines (buildHeader c ?dir))"
    "''#SBATCH --time=02:00:00'' \<in> set (script_lines (buildHeader c ?dir))"
    unfolding buildHeader_lines [OF assms(8) dir assms(11) mem tm]
    using assms(2,3,4,5) four by (simp_all add: header_lines_def)
  have gres: "gres_directives (buildHeader c ?dir) = []"
    using header_gres [OF assms(8) dir assms(11) mem tm] assms(3) by simp
  have level: "or_default (cfg_optimizationLevel c) ''-O3'' = level"
    using assms(6,7) by auto
  have "\<exists>pre post. buildExecution c ?dir ?cmd =
          pre @ (''('' @ ?cmd @ '') > execution_log.txt 2> execution_errors.txt'') @ post"
    unfolding buildExecution_def execution_lines_def
    by (rule exI [of _ "''# Execution'' @ [CHR 0x0A] @ ''START_TIME=$(date +%s)'' @ [CHR 0x0A] @ [CHR 0x0A]
          @ ''echo '' @ [CHR 0x22] @ ''Executing: '' @ cfg_fileName c @ [CHR 0x22] @ [CHR 0x0A] @ [CHR 0x0A]
          @ ''# Capture stdout and stderr separately'' @ [CHR 0x0A]"],
        rule exI [of _ "[CHR 0x0A] @ [CHR 0x0A] @ ''EXIT_CODE=$?'' @ [CHR 0x0A] @ ''END_TIME=$(date +%s)''
          @ [CHR 0x0A] @ ''DURATION=$((END_TIME - START_TIME))''"]) simp
  then have inc: "includes_str (buildExecution c ?dir ?cmd)
      (''('' @ ?cmd @ '') > execution_log.txt 2> execution_errors.txt'')"
    using includes_str_middle by metis
  have cmd: "''('' @ ?cmd @ '') > execution_log.txt 2> execution_errors.txt'' =
      ''('' @ (if extname (cfg_fileName c) = ''.c'' then ''gcc'' else ''g++'') @ '' ''
                  @ cfg_fileName c @ '' -o '' @ replace_ext_out (cfg_fileName c) @ '' '' @ level
                  @ '' -march=native '' @ or_default (cfg_extraFlags c) [] @ '' ''
                  @ or_default (cfg_includeFlags c) [] @ [CHR 0x0A]
                  @ ''./'' @ replace_ext_out (cfg_fileName c)
                  @ '') > execution_log.txt 2> execution_errors.txt''"
    using level by (simp add: Let_def)
  have built: "buildScript c info =
      Inr (buildHeader c ?dir @ [CHR 0x0A, CHR 0x0A]
           @ buildEnvironment ''# No Python environment needed for C/C++'' ?dir @ [CHR 0x0A, CHR 0x0A]
           @ buildExecution c ?dir ?cmd @ [CHR 0x0A, CHR 0x0A]
           @ (buildStatusCapture c ?dir @ [CHR 0x0A, CHR 0x0A] @ buildFooter))"
    using buildScript_cpp [OF assms(1) opt, of info] by simp
  show ?thesis
    using built lines gres inc cmd by (intro exI conjI) (assumption | simp)+
qed

theorem compiled_native_script_witness:
  "extname (cfg_fileName demo_config) = ''.c''
   \<and> cfg_optimizationLevel demo_config = Some ''-O3''
   \<and> (\<exists>script. buildScript demo_config demo_info = Inr script)
   \<and> ''#SBATCH --cpus-per-task=4''
        \<in> set (script_lines (buildHeader demo_config (jobsDir demo_info @ ''/'' @ cfg_id demo_config)))
   \<and> includes_str
        (buildExecution demo_config (jobsDir demo_info @ ''/'' @ cfg_id demo_config)
           (buildExecutionCommand CppExecutor demo_config
              (jobsDir demo_info @ ''/'' @ cfg_id demo_config) (cfg_fileName demo_config)))
        (''(gcc main.c -o main.out -O3 -march=native  '' @ [CHR 0x0A] @
         ''./main.out) > execution_log.txt 2> execution_errors.txt'')"
proof -
  have ext: "extname (cfg_fileName demo_config) = ''.c''"
    by (simp add: extname_def basename_def demo_config_def)
  have exe: "replace_ext_out ''main.c'' = ''main.out''"
    by (simp add: replace_ext_out_def)
  have ext': "extname ''main.c'' = ''.c''"
    by (simp add: extname_def basename_def)
  have fields: "cfg_cpus demo_config = 4" "cfg_gpus demo_config = 0"
    "cfg_memory demo_config = ''16G''" "cfg_time demo_config = ''02:00:00''"
    "cfg_optimizationLevel demo_config = Some ''-O3''"
    "cfg_fileName demo_config = ''main.c''"
    "or_default (cfg_extraFlags demo_config) [] = []"
    "or_default (cfg_includeFlags demo_config) [] = []"
    by (simp_all add: demo_config_def)
  have lvl: "''-O3'' \<in> set [''-O0'', ''-O1'', ''-O2'', ''-O3'']" by simp
  have sl: "single_line (cfg_name demo_config)" "single_line (jobsDir demo_info)"
    "single_line (cfg_id demo_config)" "single_line (cfg_partition demo_config)"
    by (simp_all add: single_line_def demo_config_def demo_info_def)
  from compiled_native_script [OF disjI1 [OF ext] fields(1-5) lvl sl]
  obtain header environment execution rest where
    built: "buildScript demo_config demo_info =
             Inr (header @ [CHR 0x0A, CHR 0x0A] @ environment @ [CHR 0x0A, CHR 0x0A] @ execution
                    @ [CHR 0x0A, CHR 0x0A] @ rest)"
    and hd: "header = buildHeader demo_config (jobsDir demo_info @ ''/'' @ cfg_id demo_config)"
    and cpus: "''#SBATCH --cpus-per-task=4'' \<in> set (script_lines header)"
    and ex: "execution = buildExecution demo_config (jobsDir demo_info @ ''/'' @ cfg_id demo_config)
               (buildExecutionCommand CppExecutor demo_config
                  (jobsDir demo_info @ ''/'' @ cfg_id demo_config) (cfg_fileName demo_config))"
    and inc: "includes_str execution
               (''('' @ (if extname (cfg_fileName demo_config) = ''.c'' then ''gcc'' else ''g++'') @ '' ''
                  @ cfg_fileName demo_config @ '' -o '' @ replace_ext_out (cfg_fileName demo_config)
                  @ '' '' @ ''-O3''
                  @ '' -march=native '' @ or_default (cfg_extraFlags demo_config) [] @ '' ''
                  @ or_default (cfg_includeFlags demo_config) [] @ [CHR 0x0A]
                  @ ''./'' @ replace_ext_out (cfg_fileName demo_config)
                  @ '') > execution_log.txt 2> execution_errors.txt'')"
    by blast
  have "includes_str execution
        (''(gcc main.c -o main.out -O3 -march=native  '' @ [CHR 0x0A] @
         ''./main.out) > execution_log.txt 2> execution_errors.txt'')"
    using inc by (simp add: ext' exe fields(6,7,8))
  then show ?thesis using ext fields(5) built hd cpus ex by auto
qed

section \<open>Properties of job identifiers\<close>

lemma append_less_eq_length:
  "length a = length b \<Longrightarrow> (a @ x < b @ y) = (a < b \<or> a = b \<and> x < y)" for a b :: string
  by (induction a b rule: list_induct2) auto

lemma digit_char_code: "d < 10 \<Longrightarrow> of_char (digit_char d) = (48 + d :: nat)"
proof -
  assume "d < 10"
  then have "d \<in> {0, 1, 2, 3, 4, 5, 6, 7, 8, 9}" by auto
  then show ?thesis by (auto simp: digit_char_def)
qed

lemma digit_char_less: "a < 10 \<Longrightarrow> b < 10 \<Longrightarrow> (digit_char a < digit_char b) = (a < b)"
  by (simp add: less_char_def digit_char_code)

lemma digit_char_inj: "a < 10 \<Longrightarrow> b < 10 \<Longrightarrow> (digit_char a = digit_char b) = (a = b)"
  by (metis digit_char_code add_left_cancel)

lemma length_digits: "length (digits n k) = n"
  by (induction n arbitrary: k) auto

lemma digits_inj: "a < 10 ^ n \<Longrightarrow> b < 10 ^ n \<Longrightarrow> (digits n a = digits n b) = (a = b)"
proof (induction n arbitrary: a b)
  case 0
  then show ?case by simp
next
  case (Suc n)
  have "a div 10 < 10 ^ n" "b div 10 < 10 ^ n" using Suc.prems by (simp_all add: less_mult_imp_div_less)
  then have "(digits n (a div 10) = digits n (b div 10)) = (a div 10 = b div 10)" by (rule Suc.IH)
  moreover have "(digit_char (a mod 10) = digit_char (b mod 10)) = (a mod 10 = b mod 10)"
    by (rule digit_char_inj) simp_all
  moreover have "(a div 10 = b div 10 \<and> a mod 10 = b mod 10) = (a = b)"
    by (metis div_mult_mod_eq)
  ultimately show ?case by (simp add: length_digits)
qed

lemma digits_less: "a < 10 ^ n \<Longrightarrow> b < 10 ^ n \<Longrightarrow> (digits n a < digits n b) = (a < b)"
proof (induction n arbitrary: a b)
  case 0
  then show ?case by simp
next
  case (Suc n)
  have lt: "a div 10 < 10 ^ n" "b div 10 < 10 ^ n" using Suc.prems by (simp_all add: less_mult_imp_div_less)
  have "(digits (Suc n) a < digits (Suc n) b)
      = (digits n (a div 10) < digits n (b div 10)
         \<or> digits n (a div 10) = digits n (b div 10) \<and> [digit_char (a mod 10)] < [digit_char (b mod 10)])"
    by (simp add: append_less_eq_length length_digits)
  also have "\<dots> = (a div 10 < b div 10 \<or> a div 10 = b div 10 \<and> a mod 10 < b mod 10)"
    using Suc.IH [OF lt] digits_inj [OF lt] by (simp add: digit_char_less)
  also have "\<dots> = (a < b)"
  proof -
    have "a = 10 * (a div 10) + a mod 10" "b = 10 * (b div 10) + b mod 10" by simp_all
    moreover have "a mod 10 < 10" "b mod 10 < 10" by simp_all
    ultimately show ?thesis by linarith
  qed
  finally show ?case .
qed


lemma digits_are_digits: "set (digits n k) \<subseteq> set ''0123456789''"
proof (induction n arbitrary: k)
  case 0
  then show ?case by simp
next
  case (Suc n)
  have "digit_char (k mod 10) \<in> set ''0123456789''" by (rule digit_char_digit) simp
  with Suc.IH [of "k div 10"] show ?case by auto
qed

lemma digits_plain:
  "CHR ''.'' \<notin> set (digits n k)" "CHR '':'' \<notin> set (digits n k)"
  "CHR 0x0A \<notin> set (digits n k)" "CHR 0x0D \<notin> set (digits n k)"
  using digits_are_digits [of n k] by auto

lemma map_colon_digits:
  "map (\<lambda>c. if c = CHR '':'' then CHR ''-'' else c) (digits n k) = digits n k"
proof (rule map_idI)
  fix x assume "x \<in> set (digits n k)"
  with digits_plain(2) [of n k] have "x \<noteq> CHR '':''" by auto
  then show "(if x = CHR '':'' then CHR ''-'' else x) = x" by simp
qed

lemma remove_dot_rest_cut:
  assumes "CHR ''.'' \<notin> set pre" "\<forall>x \<in> set (c # rest). x \<noteq> CHR 0x0A \<and> x \<noteq> CHR 0x0D"
  shows "remove_dot_rest (pre @ CHR ''.'' # c # rest) = pre"
  using assms(1)
proof (induction pre)
  case Nil
  have "dropWhile (\<lambda>x. x \<notin> set [CHR 0x0A, CHR 0x0D]) (c # rest) = []"
    using assms(2) by (auto simp: dropWhile_eq_Nil_conv)
  then show ?case using assms(2) by simp
next
  case (Cons p pre)
  then have "remove_dot_rest (pre @ CHR ''.'' # c # rest) = pre" by simp
  moreover have "p \<noteq> CHR ''.''" using Cons.prems by auto
  ultimately show ?case by (cases pre) simp_all
qed

lemma padStart_ms: "k < 1000 \<Longrightarrow> padStart 3 (CHR ''0'') (show_nat k) = digits 3 k"
proof -
  assume k: "k < 1000"
  have zero: "digit_char 0 = CHR ''0''" by (simp add: digit_char_def)
  consider "k < 10" | "10 \<le> k" "k < 100" | "100 \<le> k" by linarith
  then show ?thesis
  proof cases
    case 1
    then have "show_nat k = [digit_char k]" by (subst show_nat.simps) simp
    with 1 show ?thesis by (simp add: padStart_def numeral_3_eq_3 zero)
  next
    case 2
    then have "k div 10 < 10" by simp
    then have "show_nat (k div 10) = [digit_char (k div 10)]" by (subst show_nat.simps) simp
    with 2 have "show_nat k = [digit_char (k div 10), digit_char (k mod 10)]"
      by (subst show_nat.simps) simp
    with 2 show ?thesis by (simp add: padStart_def numeral_3_eq_3 zero)
  next
    case 3
    with k have a: "\<not> k div 10 < 10" "k div 10 div 10 < 10" by simp_all
    then have "show_nat (k div 10 div 10) = [digit_char (k div 10 div 10)]"
      by (subst show_nat.simps) simp
    with a have "show_nat (k div 10) = [digit_char (k div 10 div 10), digit_char (k div 10 mod 10)]"
      by (subst show_nat.simps) simp
    with 3 have "show_nat k = [digit_char (k div 10 div 10), digit_char (k div 10 mod 10), digit_char (k mod 10)]"
      by (subst show_nat.simps) simp
    with a show ?thesis by (simp add: padStart_def numeral_3_eq_3)
  qed
qed

lemma generateJobId_form:
  assumes "valid_date d"
  shows "generateJobId d =
           digits 4 (nat (year d)) @ ''-'' @ digits 2 (month d) @ ''-'' @ digits 2 (day d) @ ''T'' @
           digits 2 (hours d) @ ''-'' @ digits 2 (minutes d) @ ''-'' @ digits 2 (seconds d) @ ''-'' @
           digits 3 (milliseconds d)"
proof -
  let ?pre = "digits 4 (nat (year d)) @ ''-'' @ digits 2 (month d) @ ''-'' @ digits 2 (day d) @ ''T'' @
     digits 2 (hours d) @ '':'' @ digits 2 (minutes d) @ '':'' @ digits 2 (seconds d)"
  obtain c rest where ms: "digits 3 (milliseconds d) @ ''Z'' = c # rest"
    by (cases "digits 3 (milliseconds d) @ ''Z''") simp_all
  have plain: "\<forall>x \<in> set (c # rest). x \<noteq> CHR 0x0A \<and> x \<noteq> CHR 0x0D"
    using digits_plain(3,4) [of 3 "milliseconds d"] unfolding ms [symmetric] by auto
  have nodot: "CHR ''.'' \<notin> set ?pre" by (simp add: digits_plain)
  have iso: "toISOString d = ?pre @ CHR ''.'' # c # rest"
    using assms ms by (simp add: toISOString_def valid_date_def)
  have "remove_dot_rest (toISOString d) = ?pre"
    unfolding iso by (rule remove_dot_rest_cut [OF nodot plain])
  moreover have "padStart 3 (CHR ''0'') (show_nat (milliseconds d)) = digits 3 (milliseconds d)"
    using assms by (simp add: padStart_ms valid_date_def)
  ultimately show ?thesis by (simp add: generateJobId_def map_colon_digits)
qed

text \<open>
  C8. For two dates with a four-digit year, the identifier generated at the earlier one is
  lexicographically smaller than the identifier generated at the later one, and two
  different dates give two different identifiers.
\<close>

theorem job_ids_ordered:
  assumes "valid_date a" "valid_date b"
  shows "(earlier a b \<longrightarrow> generateJobId a < generateJobId b)
       \<and> (a \<noteq> b \<longrightarrow> generateJobId a \<noteq> generateJobId b)"
proof -
  have ba: "nat (year a) < 10 ^ 4" "month a < 10 ^ 2" "day a < 10 ^ 2" "hours a < 10 ^ 2"
    "minutes a < 10 ^ 2" "seconds a < 10 ^ 2" "milliseconds a < 10 ^ 3"
    using assms(1) by (auto simp: valid_date_def)
  have bb: "nat (year b) < 10 ^ 4" "month b < 10 ^ 2" "day b < 10 ^ 2" "hours b < 10 ^ 2"
    "minutes b < 10 ^ 2" "seconds b < 10 ^ 2" "milliseconds b < 10 ^ 3"
    using assms(2) by (auto simp: valid_date_def)
  have yr: "(nat (year a) < nat (year b)) = (year a < year b)" "(nat (year a) = nat (year b)) = (year a = year b)"
    using assms by (auto simp: valid_date_def)
  have less: "(generateJobId a < generateJobId b) = earlier a b"
    unfolding generateJobId_form [OF assms(1)] generateJobId_form [OF assms(2)] earlier_def
    using ba bb yr
    by (simp add: append_less_eq_length length_digits digits_less digits_inj del: digits.simps)
  have eq: "(generateJobId a = generateJobId b) = (a = b)"
  proof
    assume "generateJobId a = generateJobId b"
    then have "year a = year b \<and> month a = month b \<and> day a = day b \<and> hours a = hours b
        \<and> minutes a = minutes b \<and> seconds a = seconds b \<and> milliseconds a = milliseconds b"
      unfolding generateJobId_form [OF assms(1)] generateJobId_form [OF assms(2)]
      using ba bb yr
      by (simp add: length_digits digits_inj del: digits.simps)
    then show "a = b" by simp
  next
    assume "a = b" then show "generateJobId a = generateJobId b" by simp
  qed
  from less eq show ?thesis by simp
qed

lemma digits_2: "digits 2 k = [digit_char (k div 10 mod 10), digit_char (k mod 10)]"
  by (simp add: numeral_2_eq_2)

lemma digits_3:
  "digits 3 k = [digit_char (k div 10 div 10 mod 10), digit_char (k div 10 mod 10), digit_char (k mod 10)]"
  by (simp add: numeral_3_eq_3)

lemma digits_4:
  "digits 4 k = [digit_char (k div 10 div 10 div 10 mod 10), digit_char (k div 10 div 10 mod 10),
                 digit_char (k div 10 mod 10), digit_char (k mod 10)]"
proof -
  have four: "(4::nat) = Suc 3" by simp
  show ?thesis by (subst four) (simp only: digits.simps(2) digits_3 append_Cons append_Nil)
qed

theorem job_ids_ordered_witness:
  "valid_date (demo_date 0 999) \<and> valid_date (demo_date 1 0)
   \<and> earlier (demo_date 0 999) (demo_date 1 0)
   \<and> generateJobId (demo_date 0 999) = ''2024-01-15T10-30-00-999''
   \<and> generateJobId (demo_date 1 0) = ''2024-01-15T10-30-01-000''
   \<and> generateJobId (demo_date 0 999) < generateJobId (demo_date 1 0)
   \<and> generateJobId (demo_date 0 999) \<noteq> generateJobId (demo_date 1 0)"
proof -
  have v: "valid_date (demo_date 0 999)" "valid_date (demo_date 1 0)"
    by (simp_all add: valid_date_def demo_date_def)
  have e: "earlier (demo_date 0 999) (demo_date 1 0)"
    by (simp add: earlier_def demo_date_def)
  have ne: "demo_date 0 999 \<noteq> demo_date 1 0" by (simp add: demo_date_def)
  have a: "generateJobId (demo_date 0 999) = ''2024-01-15T10-30-00-999''"
    unfolding generateJobId_form [OF v(1)]
    by (simp add: demo_date_def digits_2 digits_3 digits_4 digit_char_def del: digits.simps)
  have b: "generateJobId (demo_date 1 0) = ''2024-01-15T10-30-01-000''"
    unfolding generateJobId_form [OF v(2)]
    by (simp add: demo_date_def digits_2 digits_3 digits_4 digit_char_def del: digits.simps)
  from job_ids_ordered [OF v] e ne
  have "generateJobId (demo_date 0 999) < generateJobId (demo_date 1 0)"
    and "generateJobId (demo_date 0 999) \<noteq> generateJobId (demo_date 1 0)"
    by simp_all
  with v e a b show ?thesis by simp
qed

section \<open>Properties of job submission\<close>

lemma all_answered_append:
  "all_answered e h (xs @ ys) = (all_answered e h xs \<and> all_answered e (h @ xs) ys)"
  by (induction xs arbitrary: h) auto

lemma upload_inputs_frame:
  "upload_inputs e dir fs w = (r, w') \<Longrightarrow>
     jobsFile w' = jobsFile w \<and> storageDir w' = storageDir w \<and> disk w' = disk w"
proof (induction fs arbitrary: w)
  case Nil
  then show ?case by simp
next
  case (Cons f fs)
  show ?case
  proof (cases "respond e (trace w) (Upload f (dir @ ''/'' @ basename f))")
    case (Inl err)
    with Cons.prems show ?thesis by (auto simp: uploadFile_def)
  next
    case (Inr x)
    with Cons.prems have "upload_inputs e dir fs
        (w\<lparr>trace := trace w @ [Upload f (dir @ ''/'' @ basename f)]\<rparr>) = (r, w')"
      by (simp add: uploadFile_def)
    from Cons.IH [OF this] show ?thesis by simp
  qed
qed

lemma upload_inputs_ok:
  "upload_inputs e dir fs w = (Inr u, w') \<Longrightarrow>
     trace w' = trace w @ map (\<lambda>f. Upload f (dir @ ''/'' @ basename f)) fs
   \<and> all_answered e (trace w) (map (\<lambda>f. Upload f (dir @ ''/'' @ basename f)) fs)
   \<and> ticks w' = ticks w"
proof (induction fs arbitrary: w)
  case Nil
  then show ?case by simp
next
  case (Cons f fs)
  show ?case
  proof (cases "respond e (trace w) (Upload f (dir @ ''/'' @ basename f))")
    case (Inl err)
    with Cons.prems show ?thesis by (auto simp: uploadFile_def)
  next
    case (Inr x)
    with Cons.prems have "upload_inputs e dir fs
        (w\<lparr>trace := trace w @ [Upload f (dir @ ''/'' @ basename f)]\<rparr>) = (Inr u, w')"
      by (simp add: uploadFile_def)
    from Cons.IH [OF this] Inr show ?thesis by simp
  qed
qed

lemma submit_remote_frame:
  assumes "submit_remote e fpath inputs c w = (r, w')"
  shows "jobsFile w' = jobsFile w \<and> storageDir w' = storageDir w \<and> disk w' = disk w"
  using assms
  by (auto simp: submit_remote_def Let_def executeCommand_def uploadFile_def
           split: sum.splits prod.splits dest!: upload_inputs_frame)


lemma submit_remote_ok:
  assumes "submit_remote e fpath inputs c w = (Inr j, w')"
  shows "status j = JStr ''PENDING''
       \<and> (\<exists>info. getClusterInfo (vscode_settings e) = Inr info
              \<and> \<not> isl (buildScript (config j) info)
              \<and> remoteDir j = jobsDir info @ ''/'' @ jobId j)
       \<and> trace w' = trace w @ submission_calls (remoteDir j) fpath (cfg_inputFiles (config j))
                                  (path_join [tmpdir e, ''job_'' @ jobId j @ ''.sbatch''])
       \<and> all_answered e (trace w)
            (submission_calls (remoteDir j) fpath (cfg_inputFiles (config j))
               (path_join [tmpdir e, ''job_'' @ jobId j @ ''.sbatch'']))"
proof -
  from assms obtain info where info: "getClusterInfo (vscode_settings e) = Inr info"
    by (cases "getClusterInfo (vscode_settings e)") (simp_all add: submit_remote_def)
  let ?jid = "generateJobId (clock e (ticks w))"
  let ?dir = "jobsDir info @ ''/'' @ ?jid"
  let ?files = "case inputs of None \<Rightarrow> [] | Some fs \<Rightarrow> fs"
  let ?cfg = "c\<lparr>cfg_id := ?jid, cfg_fileName := basename fpath,
                 cfg_submitted := toISOString (clock e (ticks w + 1)), cfg_inputFiles := ?files\<rparr>"
  let ?tmp = "path_join [tmpdir e, ''job_'' @ ?jid @ ''.sbatch'']"
  let ?w0 = "w\<lparr>ticks := ticks w + 2\<rparr>"
  let ?c1 = "Exec (''mkdir -p '' @ ?dir)"
  let ?c2 = "Upload fpath (?dir @ ''/'' @ basename fpath)"
  let ?w2 = "?w0\<lparr>trace := trace w @ [?c1, ?c2]\<rparr>"
  from assms info have a1: "\<not> isl (respond e (trace w) ?c1)"
    by (auto simp: submit_remote_def Let_def executeCommand_def split: sum.splits)
  from assms info a1 have a2: "\<not> isl (respond e (trace w @ [?c1]) ?c2)"
    by (auto simp: submit_remote_def Let_def executeCommand_def uploadFile_def split: sum.splits)
  obtain r3 w3 where up: "upload_inputs e ?dir ?files ?w2 = (r3, w3)"
    by (cases "upload_inputs e ?dir ?files ?w2")
  from assms info a1 a2 up obtain u where r3: "r3 = Inr u"
    by (cases r3) (auto simp: submit_remote_def Let_def executeCommand_def uploadFile_def split: sum.splits)
  note ok3 = upload_inputs_ok [OF up [unfolded r3]]
  let ?ups = "map (\<lambda>f. Upload f (?dir @ ''/'' @ basename f)) ?files"
  have t3: "trace w3 = trace w @ [?c1, ?c2] @ ?ups" using ok3 by simp
  from assms info a1 a2 up r3 obtain script where script: "buildScript ?cfg info = Inr script"
    by (cases "buildScript ?cfg info")
       (auto simp: submit_remote_def Let_def executeCommand_def uploadFile_def split: sum.splits)
  let ?c4 = "Upload ?tmp (?dir @ ''/job.sbatch'')"
  let ?c5 = "Exec (''cd '' @ ?dir @ '' && sbatch job.sbatch'')"
  from assms info a1 a2 up r3 script have a4: "\<not> isl (respond e (trace w3) ?c4)"
    by (auto simp: submit_remote_def Let_def executeCommand_def uploadFile_def split: sum.splits)
  from assms info a1 a2 up r3 script a4 have a5: "\<not> isl (respond e (trace w3 @ [?c4]) ?c5)"
    by (auto simp: submit_remote_def Let_def executeCommand_def uploadFile_def split: sum.splits)
  from assms info a1 a2 up r3 script a4 a5
  have j: "jobId j = ?jid" "remoteDir j = ?dir" "config j = ?cfg" "status j = JStr ''PENDING''"
    and w': "trace w' = trace w3 @ [?c4, ?c5]"
    by (auto simp: submit_remote_def Let_def executeCommand_def uploadFile_def split: sum.splits)
  have calls: "submission_calls (remoteDir j) fpath (cfg_inputFiles (config j))
                 (path_join [tmpdir e, ''job_'' @ jobId j @ ''.sbatch''])
               = [?c1, ?c2] @ ?ups @ [?c4, ?c5]"
    by (simp add: submission_calls_def j)
  have "all_answered e (trace w) ([?c1, ?c2] @ ?ups @ [?c4, ?c5])"
    unfolding all_answered_append using a1 a2 a4 a5 ok3 t3 by simp
  then show ?thesis using info script j w' t3 calls by simp
qed


lemma ensureStorage_effect:
  assumes "ensureStorage e w = (r, w')"
  shows "(\<forall>p. records (disk w' p) = records (disk w p)) \<and> trace w' = trace w
       \<and> (\<not> isl r \<longrightarrow> truthy_str (jobsFile w'))"
  using assms
  by (auto simp: ensureStorage_def initialize_def Let_def path_join_nonempty
           split: if_splits sum.splits option.splits prod.splits)

lemma loadJobs_records:
  "truthy_str (jobsFile w) \<Longrightarrow> loadJobs w = Inr (records (disk w (the (jobsFile w))))"
  by (cases "disk w (the (jobsFile w))") (simp_all add: loadJobs_def)

text \<open>
  C1. Submission is atomic with respect to the ledger. When \<^verbatim>\<open>submitJob\<close> fails, no ledger
  file holds a record it did not hold before. When it succeeds, the cluster paths were
  read, script generation succeeded, the remote calls made are exactly the directory
  creation, the uploads of the primary file, of every input file and of the script, and
  the scheduler submission, in that order and each answered without rejection, and the
  ledger is the old ledger with one new record appended, whose status is PENDING.
\<close>

theorem submitJob_atomic:
  assumes "submitJob e fpath inputs c w = (res, w')"
  shows "(isl res \<longrightarrow> (\<forall>p. records (disk w' p) = records (disk w p)))
       \<and> (\<not> isl res \<longrightarrow>
            (\<exists>j. res = Inr (jobId j, slurmId j) \<and> status j = JStr ''PENDING''
               \<and> disk w' (the (jobsFile w')) = Ledger (records (disk w (the (jobsFile w'))) @ [j])
               \<and> (\<forall>p. p \<noteq> the (jobsFile w') \<longrightarrow> records (disk w' p) = records (disk w p))
               \<and> (\<exists>info. getClusterInfo (vscode_settings e) = Inr info
                      \<and> \<not> isl (buildScript (config j) info))
               \<and> trace w' = trace w @ submission_calls (remoteDir j) fpath (cfg_inputFiles (config j))
                                          (path_join [tmpdir e, ''job_'' @ jobId j @ ''.sbatch''])
               \<and> all_answered e (trace w)
                    (submission_calls (remoteDir j) fpath (cfg_inputFiles (config j))
                       (path_join [tmpdir e, ''job_'' @ jobId j @ ''.sbatch'']))))"
proof -
  obtain r0 w0 where es: "ensureStorage e w = (r0, w0)" by (cases "ensureStorage e w")
  note e0 = ensureStorage_effect [OF es]
  show ?thesis
  proof (cases r0)
    case (Inl err)
    with assms es have "res = Inl err" "w' = w0" by (simp_all add: submitJob_def)
    with e0 show ?thesis by simp
  next
    case (Inr u)
    with e0 have init: "truthy_str (jobsFile w0)" by simp
    obtain r1 w1 where sr: "submit_remote e fpath inputs c w0 = (r1, w1)"
      by (cases "submit_remote e fpath inputs c w0")
    note f1 = submit_remote_frame [OF sr]
    show ?thesis
    proof (cases r1)
      case (Inl err)
      with assms es Inr sr have "res = Inl err" "w' = w1" by (simp_all add: submitJob_def)
      with e0 f1 show ?thesis by simp
    next
      case j: (Inr j)
      have init1: "truthy_str (jobsFile w1)" using init f1 by simp
      have load: "loadJobs w1 = Inr (records (disk w1 (the (jobsFile w1))))"
        by (rule loadJobs_records [OF init1])
      let ?old = "records (disk w1 (the (jobsFile w1)))"
      have save: "saveJobs (?old @ [j]) w1
                    = Inr (w1\<lparr>disk := (disk w1)(the (jobsFile w1) := Ledger (?old @ [j]))\<rparr>)"
        using init1 by (simp add: saveJobs_def)
      from assms es Inr sr j load save
      have res: "res = Inr (jobId j, slurmId j)"
        and w': "w' = w1\<lparr>disk := (disk w1)(the (jobsFile w1) := Ledger (?old @ [j]))\<rparr>"
        by (simp_all add: submitJob_def)
      note ok = submit_remote_ok [OF sr [unfolded j]]
      have jf: "jobsFile w' = jobsFile w1" using w' by simp
      have old: "?old = records (disk w (the (jobsFile w')))" using e0 f1 jf by simp
      have "disk w' (the (jobsFile w1)) = Ledger (?old @ [j])" using w' by simp
      then have ledger: "disk w' (the (jobsFile w')) = Ledger (records (disk w (the (jobsFile w'))) @ [j])"
        using old jf by simp
      have "disk w' p = disk w1 p" if "p \<noteq> the (jobsFile w1)" for p using w' that by simp
      then have others: "\<forall>p. p \<noteq> the (jobsFile w') \<longrightarrow> records (disk w' p) = records (disk w p)"
        using jf e0 f1 by simp
      have tr: "trace w' = trace w @ submission_calls (remoteDir j) fpath (cfg_inputFiles (config j))
                                          (path_join [tmpdir e, ''job_'' @ jobId j @ ''.sbatch''])"
        using ok e0 w' by simp
      have ans: "all_answered e (trace w)
                    (submission_calls (remoteDir j) fpath (cfg_inputFiles (config j))
                       (path_join [tmpdir e, ''job_'' @ jobId j @ ''.sbatch'']))"
        using ok e0 by simp
      from ok obtain info where info: "getClusterInfo (vscode_settings e) = Inr info"
        "\<not> isl (buildScript (config j) info)" by blast
      from res ok ledger others tr ans info show ?thesis by auto
    qed
  qed
qed

theorem submitJob_atomic_witness:
  "fst (submitJob (demo_submit_env (take 1 demo_submit_calls))
          ''/home/u/main.c'' (Some []) demo_config (demo_world (Ledger [demo_done])))
     = Inl (Error ''Connection lost'')
   \<and> records (disk (snd (submitJob (demo_submit_env (take 1 demo_submit_calls))
                  ''/home/u/main.c'' (Some []) demo_config (demo_world (Ledger [demo_done]))))
                ''/w/.vscode/.hpc-connector/jobs.json'')
     = [demo_done]
   \<and> fst (submitJob (demo_submit_env demo_submit_calls)
          ''/home/u/main.c'' (Some []) demo_config (demo_world (Ledger [demo_done])))
     = Inr (''2024-01-15T10-30-00-123'', Some ''4242'')
   \<and> map status (records (disk (snd (submitJob (demo_submit_env demo_submit_calls)
                  ''/home/u/main.c'' (Some []) demo_config (demo_world (Ledger [demo_done]))))
                ''/w/.vscode/.hpc-connector/jobs.json''))
     = [JStr ''COMPLETED'', JStr ''PENDING'']"
  (is "?A \<and> ?B \<and> ?C \<and> ?D")
proof -
  let ?w = "demo_world (Ledger [demo_done])"
  let ?bad = "submitJob (demo_submit_env (take 1 demo_submit_calls)) ''/home/u/main.c'' (Some []) demo_config ?w"
  let ?good = "submitJob (demo_submit_env demo_submit_calls) ''/home/u/main.c'' (Some []) demo_config ?w"
  have a: ?A by code_simp
  have c: ?C by code_simp
  have before: "records (disk ?w ''/w/.vscode/.hpc-connector/jobs.json'') = [demo_done]"
    by (simp add: demo_world_def)
  have "?bad = (fst ?bad, snd ?bad)" by simp
  from submitJob_atomic [OF this] a before have b: ?B by simp
  have "?good = (fst ?good, snd ?good)" by simp
  from submitJob_atomic [OF this] c obtain j where
    j: "status j = JStr ''PENDING''"
    "disk (snd ?good) (the (jobsFile (snd ?good)))
       = Ledger (records (disk ?w (the (jobsFile (snd ?good)))) @ [j])"
    by auto
  have path: "the (jobsFile (snd ?good)) = ''/w/.vscode/.hpc-connector/jobs.json''" by code_simp
  have fin: "status demo_done = JStr ''COMPLETED''" by (simp add: demo_done_def demo_job_def)
  from j path before fin have d: ?D by simp
  from a b c d show ?thesis by simp
qed

section \<open>Properties of path validation\<close>

lemma validatePath_rejects_traversal:
  "includes_str remotePath ''..'' \<Longrightarrow> isl (validatePath s remotePath)"
  by (simp add: validatePath_def Let_def split: sum.splits)

lemma validateDelete_rejects_traversal:
  "includes_str remotePath ''..'' \<Longrightarrow> isl (validateDelete s remotePath)"
  using validatePath_rejects_traversal [of remotePath s]
  by (auto simp: validateDelete_def split: sum.splits)

lemma validatePath_accepts_sibling_user:
  "validatePath demo_settings ''/scratch.hpc/alice2/secret'' = Inr True"
  by code_simp

text \<open>
  C2. Every remote path is to be rejected by the validator before any remote call when it
  contains \<^verbatim>\<open>..\<close> or escapes the per-user scratch root, and remote deletion is to validate
  its target with the delete validator. The code does not do this: \<^verbatim>\<open>cleanRemoteJob\<close>
  issues its remove command on the recorded remote directory without calling a validator.
  For a ledger record whose remote directory climbs out of the jobs root, the delete
  validator rejects the path, and \<^verbatim>\<open>cleanRemoteJob\<close> still succeeds with the remove command
  as its one remote call.
\<close>

theorem cleanRemoteJob_unvalidated:
  "remoteDir demo_escaping = ''/scratch.hpc/alice/hpc_jobs/../../bob/thesis''
   \<and> isl (validateDelete demo_settings (remoteDir demo_escaping))
   \<and> fst (cleanRemoteJob
            (demo_env (demo_answers [(Exec (''rm -rf '' @ remoteDir demo_escaping), Inr [])]))
            (jobId demo_escaping) (demo_world (Ledger [demo_escaping])))
       = Inr ()
   \<and> trace (snd (cleanRemoteJob
            (demo_env (demo_answers [(Exec (''rm -rf '' @ remoteDir demo_escaping), Inr [])]))
            (jobId demo_escaping) (demo_world (Ledger [demo_escaping]))))
       = [Exec ''rm -rf /scratch.hpc/alice/hpc_jobs/../../bob/thesis'']"
  by code_simp

end
